theory Spec2Isabelle
  imports Main
begin

unbundle bit_operations_syntax

section \<open>The SSH transport plugin (aida/transport/plugins/ssh.py)\<close>

text \<open>
  The plugin drives three objects of the paramiko library: an SSH client, an SFTP client
  and, for each command, a channel with its three streams. The library is not part of the
  repository, so its answers are parameters of the model: every call the plugin makes on
  one of these objects is recorded in a trace, and the answer to a call is given by a
  function of the calls made before it (an environment, \<open>env\<close>). The plugin's own state is
  a record that is passed through every method; a raised exception is the left summand of
  the result.
\<close>

subsection \<open>Values, exceptions, calls on the library\<close>

datatype pyval =
    PyNone
  | PyBool bool
  | PyInt int
  | PyStr string
  | PyDict "(string \<times> string) list"
  | PyObj string

text \<open>Python's truth value of an object, as \<^verbatim>\<open>if x:\<close> takes it.\<close>

fun truthy :: "pyval \<Rightarrow> bool" where
  "truthy PyNone = False"
| "truthy (PyBool b) = b"
| "truthy (PyInt i) = (i \<noteq> 0)"
| "truthy (PyStr s) = (s \<noteq> [])"
| "truthy (PyDict d) = (d \<noteq> [])"
| "truthy (PyObj n) = True"

text \<open>
  The exceptions the plugin raises or lets through. \<open>IOError n m\<close> has the attribute
  \<^verbatim>\<open>errno\<close> equal to \<open>n\<close> (\<open>None\<close> when the exception was built without one) and the
  attribute \<^verbatim>\<open>message\<close> equal to \<open>m\<close>. In Python 2, \<^verbatim>\<open>IOError\<close> and \<^verbatim>\<open>OSError\<close> are
  different classes, neither a subclass of the other.
\<close>

datatype exn =
    TransportInternalError string
  | IOError "int option" string
  | OSError string
  | ValueError string
  | KeyError string
  | AttributeError string
  | TypeError string
  | SSHException string
  | OtherError string

datatype stream = Stdout | Stderr

text \<open>
  One constructor for each method the plugin calls on a paramiko object. A read with
  size \<open>None\<close> is \<^verbatim>\<open>read()\<close> without an argument: it returns at end of file only.
\<close>

datatype event =
    LoadSystemHostKeys
  | SetMissingHostKeyPolicy pyval
  | Connect string "(string \<times> pyval) list"
  | OpenSftp
  | SftpClose
  | ClientClose
  | SftpChdir string
  | SftpNormalize string
  | SftpStat string
  | SftpLstat string
  | SftpMkdir string
  | SftpRmdir string
  | SftpChmod string int
  | SftpPut string string
  | SftpGet string string
  | SftpListdir string
  | SftpRemove string
  | OpenSession
  | SetCombineStderr bool
  | ExecCommand string
  | MakefileStdin int
  | MakefileStdout int
  | MakefileStderr int
  | StdinWrite string
  | StdinFlush
  | ShutdownWrite
  | StreamRead stream "nat option"
  | RecvExitStatus

text \<open>
  What \<^verbatim>\<open>sftp.stat\<close> and \<^verbatim>\<open>sftp.lstat\<close> return: paramiko's \<^verbatim>\<open>SFTPAttributes\<close>. Each of
  the six \<^verbatim>\<open>st_\<close> fields is \<^verbatim>\<open>None\<close> when the server did not send it; the object has
  further fields of its own.
\<close>

record sftp_attributes =
  st_size :: "int option"
  st_uid :: "int option"
  st_gid :: "int option"
  st_mode :: "int option"
  st_atime :: "int option"
  st_mtime :: "int option"
  attr :: "(string \<times> string) list"
  filename :: "string option"
  longname :: "string option"

datatype level = DEBUG | WARNING | ERROR

subsection \<open>The environment\<close>

text \<open>
  The answers of the library and of the remote host. Each answer may depend on every call
  made so far (the trace), so a remote file system that changes between two calls is
  covered. An answer is a value (\<open>Inr\<close>) or a raised exception (\<open>Inl\<close>); this holds for
  the calls on the streams of a channel as well (\<open>write_reply\<close>, \<open>flush_reply\<close>,
  \<open>shutdown_write_reply\<close>, \<open>stdout_reply\<close>, \<open>exit_status_reply\<close>, \<open>stderr_reply\<close>). A call
  that blocks for ever has no answer: the model speaks of the runs in which every call
  that is made comes back, with a value or with an exception. \<open>chdir_reply\<close> gives the
  directory paramiko stores as its working directory when the change succeeds.
  \<open>attributes_str\<close> is paramiko's \<^verbatim>\<open>__str__\<close> of an attributes object.

  \<open>escape_for_bash\<close> is the function of that name in \<^verbatim>\<open>aida.common.utils\<close>, which the
  plugin imports and whose source is not at hand: it is a parameter as well.
\<close>

record env =
  connect_reply :: "event list \<Rightarrow> exn + unit"
  open_sftp_reply :: "event list \<Rightarrow> exn + unit"
  chdir_reply :: "event list \<Rightarrow> string \<Rightarrow> exn + string"
  normalize_reply :: "event list \<Rightarrow> string \<Rightarrow> exn + string"
  stat_reply :: "event list \<Rightarrow> string \<Rightarrow> exn + sftp_attributes"
  lstat_reply :: "event list \<Rightarrow> string \<Rightarrow> exn + sftp_attributes"
  mkdir_reply :: "event list \<Rightarrow> string \<Rightarrow> exn + unit"
  rmdir_reply :: "event list \<Rightarrow> string \<Rightarrow> exn + unit"
  chmod_reply :: "event list \<Rightarrow> string \<Rightarrow> int \<Rightarrow> exn + unit"
  put_reply :: "event list \<Rightarrow> string \<Rightarrow> string \<Rightarrow> exn + sftp_attributes"
  get_reply :: "event list \<Rightarrow> string \<Rightarrow> string \<Rightarrow> exn + unit"
  listdir_reply :: "event list \<Rightarrow> string \<Rightarrow> exn + string list"
  remove_reply :: "event list \<Rightarrow> string \<Rightarrow> exn + unit"
  open_session_reply :: "event list \<Rightarrow> exn + unit"
  exec_command_reply :: "event list \<Rightarrow> string \<Rightarrow> exn + unit"
  write_reply :: "event list \<Rightarrow> string \<Rightarrow> exn + unit"
  flush_reply :: "event list \<Rightarrow> exn + unit"
  shutdown_write_reply :: "event list \<Rightarrow> exn + unit"
  stdout_reply :: "event list \<Rightarrow> exn + string"
  exit_status_reply :: "event list \<Rightarrow> exn + int"
  stderr_reply :: "event list \<Rightarrow> exn + string"
  attributes_str :: "sftp_attributes \<Rightarrow> string"
  escape_for_bash :: "string \<Rightarrow> string"

subsection \<open>The transport object\<close>

text \<open>
  \<open>is_open\<close> is \<^verbatim>\<open>self._is_open\<close>; \<open>sftp_set\<close> tells whether \<^verbatim>\<open>self._sftp\<close> holds an SFTP
  client (it is \<^verbatim>\<open>None\<close> after \<^verbatim>\<open>__init__\<close>); \<open>cwd\<close> is the working directory that the SFTP
  client keeps (what its \<^verbatim>\<open>getcwd()\<close> returns, \<^verbatim>\<open>None\<close> when none was set); \<open>trace\<close> holds
  the calls made on the library, oldest first; \<open>logged\<close> holds the records handed to the
  logger.
\<close>

record transport =
  is_open :: bool
  sftp_set :: bool
  machine :: string
  connect_args :: "(string \<times> pyval) list"
  cwd :: "string option"
  trace :: "event list"
  logged :: "(level \<times> string) list"

type_synonym 'a io = "transport \<Rightarrow> (exn + 'a) \<times> transport"

definition ret :: "'a \<Rightarrow> 'a io" where
  "ret x = (\<lambda>t. (Inr x, t))"

definition raise :: "exn \<Rightarrow> 'a io" where
  "raise e = (\<lambda>t. (Inl e, t))"

definition bind :: "'a io \<Rightarrow> ('a \<Rightarrow> 'b io) \<Rightarrow> 'b io" where
  "bind m f = (\<lambda>t. case m t of (Inl e, t') \<Rightarrow> (Inl e, t') | (Inr x, t') \<Rightarrow> f x t')"

text \<open>\<^verbatim>\<open>try: m  except IOError as e: h\<close>; any other exception passes through.\<close>

definition except_IOError :: "'a io \<Rightarrow> (int option \<Rightarrow> string \<Rightarrow> 'a io) \<Rightarrow> 'a io" where
  "except_IOError m h =
     (\<lambda>t. case m t of
             (Inl (IOError n msg), t') \<Rightarrow> h n msg t'
           | r \<Rightarrow> r)"

text \<open>\<^verbatim>\<open>try: m  except AttributeError: h\<close>.\<close>

definition except_AttributeError :: "'a io \<Rightarrow> 'a io \<Rightarrow> 'a io" where
  "except_AttributeError m h =
     (\<lambda>t. case m t of
             (Inl (AttributeError msg), t') \<Rightarrow> h t'
           | r \<Rightarrow> r)"

text \<open>A call on the library: the answer is the environment's, the call joins the trace.\<close>

definition call :: "event \<Rightarrow> (event list \<Rightarrow> exn + 'a) \<Rightarrow> 'a io" where
  "call ev reply = (\<lambda>t. (reply (trace t), t\<lparr>trace := trace t @ [ev]\<rparr>))"

definition log_record :: "level \<Rightarrow> string \<Rightarrow> unit io" where
  "log_record lv msg = (\<lambda>t. (Inr (), t\<lparr>logged := logged t @ [(lv, msg)]\<rparr>))"

subsection \<open>Rendering of integers (\<^verbatim>\<open>str.format\<close> on an int)\<close>

fun str_nat :: "nat \<Rightarrow> string" where
  "str_nat n =
     (if n < 10 then [''0123456789'' ! n]
      else str_nat (n div 10) @ [''0123456789'' ! (n mod 10)])"

definition str_int :: "int \<Rightarrow> string" where
  "str_int i = (if i < 0 then CHR ''-'' # str_nat (nat (- i)) else str_nat (nat i))"

definition str_int_option :: "int option \<Rightarrow> string" where
  "str_int_option v = (case v of None \<Rightarrow> ''None'' | Some i \<Rightarrow> str_int i)"

subsection \<open>\<^verbatim>\<open>stat.S_ISDIR\<close> and \<^verbatim>\<open>stat.S_ISREG\<close>\<close>

text \<open>
  \<^verbatim>\<open>S_IFMT(mode) = mode & 0170000\<close>, compared with \<^verbatim>\<open>S_IFDIR = 0040000\<close> and
  \<^verbatim>\<open>S_IFREG = 0100000\<close>. On \<^verbatim>\<open>None\<close> the operator \<^verbatim>\<open>&\<close> raises the \<^verbatim>\<open>TypeError\<close>
  \<^verbatim>\<open>unsupported operand type(s) for &: 'NoneType' and 'int'\<close>.
\<close>

definition none_and_int :: exn where
  "none_and_int =
     TypeError (''unsupported operand type(s) for &: '' @ [CHR 0x27] @ ''NoneType''
                @ [CHR 0x27] @ '' and '' @ [CHR 0x27] @ ''int'' @ [CHR 0x27])"

definition S_IFMT :: "int \<Rightarrow> int" where
  "S_IFMT m = m AND 61440"

definition S_ISDIR :: "int option \<Rightarrow> bool io" where
  "S_ISDIR mode =
     (case mode of
        None \<Rightarrow> raise none_and_int
      | Some m \<Rightarrow> ret (S_IFMT m = 16384))"

definition S_ISREG :: "int option \<Rightarrow> bool io" where
  "S_ISREG mode =
     (case mode of
        None \<Rightarrow> raise none_and_int
      | Some m \<Rightarrow> ret (S_IFMT m = 32768))"

declare str_nat.simps [simp del]

subsection \<open>Construction, opening and closing\<close>

definition valid_connect_params :: "string list" where
  "valid_connect_params =
     [''port'', ''username'', ''password'', ''pkey'', ''key_filename'', ''timeout'',
      ''allow_agent'', ''look_for_keys'', ''compress'']"

text \<open>
  \<^verbatim>\<open>kwargs.pop(k, default)\<close> on the keyword arguments, kept as an association list with
  one entry for each key.
\<close>

definition pop_default :: "string \<Rightarrow> pyval \<Rightarrow> (string \<times> pyval) list \<Rightarrow> pyval \<times> (string \<times> pyval) list" where
  "pop_default k d kw =
     (case map_of kw k of
        None \<Rightarrow> (d, kw)
      | Some v \<Rightarrow> (v, filter (\<lambda>kv. fst kv \<noteq> k) kw))"

text \<open>
  The loop over \<^verbatim>\<open>_valid_connect_params\<close>: each parameter that is present moves from
  the keyword arguments to \<^verbatim>\<open>_connect_args\<close>.
\<close>

fun take_connect_args ::
  "string list \<Rightarrow> (string \<times> pyval) list \<Rightarrow> (string \<times> pyval) list \<Rightarrow>
   (string \<times> pyval) list \<times> (string \<times> pyval) list" where
  "take_connect_args [] kw args = (kw, args)"
| "take_connect_args (k # ks) kw args =
     (case map_of kw k of
        None \<Rightarrow> take_connect_args ks kw args
      | Some v \<Rightarrow> take_connect_args ks (filter (\<lambda>kv. fst kv \<noteq> k) kw) (args @ [(k, v)]))"

fun join_comma :: "string list \<Rightarrow> string" where
  "join_comma [] = []"
| "join_comma [x] = x"
| "join_comma (x # y # ys) = x @ '','' @ join_comma (y # ys)"

text \<open>\<^verbatim>\<open>SshTransport.__init__(machine, **kwargs)\<close>, from the state of a fresh object.\<close>

definition init :: "string \<Rightarrow> (string \<times> pyval) list \<Rightarrow> (exn + unit) \<times> transport" where
  "init mach kwargs =
     (let t0 = \<lparr>is_open = False, sftp_set = False, machine = mach, connect_args = [],
                cwd = None, trace = [], logged = []\<rparr>;
          (load, kw1) = pop_default ''load_system_host_keys'' (PyBool False) kwargs;
          t1 = (if truthy load then t0\<lparr>trace := trace t0 @ [LoadSystemHostKeys]\<rparr> else t0);
          (policy, kw2) = pop_default ''key_policy'' (PyObj ''RejectPolicy'') kw1;
          t2 = t1\<lparr>trace := trace t1 @ [SetMissingHostKeyPolicy policy]\<rparr>;
          (kw3, args) = take_connect_args valid_connect_params kw2 [];
          t3 = t2\<lparr>connect_args := args\<rparr>
      in if kw3 \<noteq> []
         then (Inl (ValueError (''The following parameters were not accepted by the transport: ''
                                @ join_comma (map fst kw3))), t3)
         else (Inr (), t3))"

text \<open>\<^verbatim>\<open>__enter__\<close>: connect, open the SFTP client, make its working directory explicit.\<close>

definition sftp_chdir :: "env \<Rightarrow> string \<Rightarrow> unit io" where
  "sftp_chdir E path =
     bind (call (SftpChdir path) (\<lambda>h. chdir_reply E h path))
          (\<lambda>p t. (Inr (), t\<lparr>cwd := Some p\<rparr>))"

definition enter :: "env \<Rightarrow> unit io" where
  "enter E =
     (\<lambda>t. (bind (call (Connect (machine t) (connect_args t)) (connect_reply E)) (\<lambda>_.
            bind (call OpenSftp (open_sftp_reply E)) (\<lambda>_.
            bind (\<lambda>t. (Inr (), t\<lparr>sftp_set := True\<rparr>)) (\<lambda>_.
            bind (call (SftpNormalize ''.'') (\<lambda>h. normalize_reply E h ''.'')) (\<lambda>here.
            bind (sftp_chdir E here) (\<lambda>_.
            (\<lambda>t. (Inr (), t\<lparr>is_open := True\<rparr>)))))))) t)"

text \<open>
  \<^verbatim>\<open>__exit__\<close>: close the SFTP client, then the SSH client, then clear the flag. On an
  object that was never entered \<^verbatim>\<open>self._sftp\<close> is \<^verbatim>\<open>None\<close> and the first line raises.
\<close>

definition exit_transport :: "unit io" where
  "exit_transport =
     bind (\<lambda>t. if sftp_set t then (Inr (), t)
                else (Inl (AttributeError ''close''), t)) (\<lambda>_.
     bind (call SftpClose (\<lambda>h. Inr ())) (\<lambda>_.
     bind (call ClientClose (\<lambda>h. Inr ())) (\<lambda>_.
     (\<lambda>t. (Inr (), t\<lparr>is_open := False\<rparr>)))))"

subsection \<open>The guarded properties\<close>

text \<open>
  The properties \<^verbatim>\<open>sshclient\<close> and \<^verbatim>\<open>sftp\<close>: every method reaches the library through one
  of them.
\<close>

definition sshclient :: "unit io" where
  "sshclient =
     (\<lambda>t. if \<not> is_open t
           then (Inl (TransportInternalError
                  ''Error, ssh method called for SshTransport without opening the channel first''), t)
           else (Inr (), t))"

definition sftp :: "unit io" where
  "sftp =
     (\<lambda>t. if \<not> is_open t
           then (Inl (TransportInternalError
                  ''Error, sftp method called for SshTransport without opening the channel first''), t)
           else (Inr (), t))"

subsection \<open>File system methods\<close>

text \<open>
  \<^verbatim>\<open>getcwd\<close> returns the field the SFTP client keeps; paramiko sends nothing for it.
\<close>

definition getcwd :: "string option io" where
  "getcwd = bind sftp (\<lambda>_ t. (Inr (cwd t), t))"

text \<open>\<^verbatim>\<open>chdir(path)\<close>; \<open>None\<close> is Python's \<^verbatim>\<open>None\<close>.\<close>

definition chdir :: "env \<Rightarrow> string option \<Rightarrow> unit io" where
  "chdir E path =
     bind (case path of
             None \<Rightarrow> ret ()
           | Some p \<Rightarrow> bind sftp (\<lambda>_. sftp_chdir E p)) (\<lambda>_.
     bind sftp (\<lambda>_.
     bind (call (SftpStat ''.'') (\<lambda>h. stat_reply E h ''.'')) (\<lambda>_.
     ret ())))"

definition normalize_path :: "env \<Rightarrow> string \<Rightarrow> string io" where
  "normalize_path E path =
     bind sftp (\<lambda>_. call (SftpNormalize path) (\<lambda>h. normalize_reply E h path))"

definition mkdir :: "env \<Rightarrow> string \<Rightarrow> unit io" where
  "mkdir E path =
     except_IOError
       (bind sftp (\<lambda>_. call (SftpMkdir path) (\<lambda>h. mkdir_reply E h path)))
       (\<lambda>n msg. raise (OSError msg))"

definition rmdir :: "env \<Rightarrow> string \<Rightarrow> unit io" where
  "rmdir E path =
     bind sftp (\<lambda>_. call (SftpRmdir path) (\<lambda>h. rmdir_reply E h path))"

definition isdir :: "env \<Rightarrow> string \<Rightarrow> bool io" where
  "isdir E path =
     (if path = [] then ret False
      else except_IOError
             (bind sftp (\<lambda>_.
              bind (call (SftpStat path) (\<lambda>h. stat_reply E h path)) (\<lambda>a.
              S_ISDIR (st_mode a))))
             (\<lambda>n msg. if n = Some 2 then ret False else raise (IOError n msg)))"

definition chmod :: "env \<Rightarrow> string \<Rightarrow> int \<Rightarrow> unit io" where
  "chmod E path mode =
     (if path = [] then raise (IOError None ''Input path is an empty argument.'')
      else bind sftp (\<lambda>_. call (SftpChmod path mode) (\<lambda>h. chmod_reply E h path mode)))"

text \<open>\<^verbatim>\<open>os.path.isabs\<close> of \<^verbatim>\<open>posixpath\<close>: the path starts with a slash.\<close>

definition isabs :: "string \<Rightarrow> bool" where
  "isabs s = (case s of [] \<Rightarrow> False | c # _ \<Rightarrow> c = CHR ''/'')"

text \<open>
  \<^verbatim>\<open>put\<close> and \<^verbatim>\<open>get\<close>; the progress callback is handed to paramiko as it is and is left
  out here.
\<close>

definition put :: "env \<Rightarrow> string \<Rightarrow> string \<Rightarrow> sftp_attributes io" where
  "put E localpath remotepath =
     (if \<not> isabs localpath then raise (ValueError ''The localpath must be an absolute path'')
      else bind sftp (\<lambda>_.
           call (SftpPut localpath remotepath) (\<lambda>h. put_reply E h localpath remotepath)))"

definition get :: "env \<Rightarrow> string \<Rightarrow> string \<Rightarrow> unit io" where
  "get E remotepath localpath =
     (if \<not> isabs localpath then raise (ValueError ''The localpath must be an absolute path'')
      else bind sftp (\<lambda>_.
           call (SftpGet remotepath localpath) (\<lambda>h. get_reply E h remotepath localpath)))"

definition listdir :: "env \<Rightarrow> string \<Rightarrow> string list io" where
  "listdir E path =
     bind sftp (\<lambda>_. call (SftpListdir path) (\<lambda>h. listdir_reply E h path))"

definition remove_file :: "env \<Rightarrow> string \<Rightarrow> unit io" where
  "remove_file E path =
     bind sftp (\<lambda>_. call (SftpRemove path) (\<lambda>h. remove_reply E h path))"

text \<open>
  \<^verbatim>\<open>isfile\<close>: the arguments of the debug message are evaluated first, left to right (one
  \<^verbatim>\<open>normalize\<close> and two \<^verbatim>\<open>stat\<close> requests), then the path is stat'ed once more for the
  result; all of it inside the \<^verbatim>\<open>try\<close>.
\<close>

definition isfile :: "env \<Rightarrow> string \<Rightarrow> bool io" where
  "isfile E path =
     (if path = [] then ret False
      else except_IOError
             (bind sftp (\<lambda>_.
              bind (call (SftpNormalize path) (\<lambda>h. normalize_reply E h path)) (\<lambda>np.
              bind sftp (\<lambda>_.
              bind (call (SftpStat path) (\<lambda>h. stat_reply E h path)) (\<lambda>a1.
              bind sftp (\<lambda>_.
              bind (call (SftpStat path) (\<lambda>h. stat_reply E h path)) (\<lambda>a2.
              bind (log_record DEBUG
                      (''stat for path '' @ [CHR 0x27] @ path @ [CHR 0x27] @ '' (''
                       @ [CHR 0x27] @ np @ [CHR 0x27] @ ''): '' @ attributes_str E a1
                       @ '' ['' @ str_int_option (st_mode a2) @ '']'')) (\<lambda>_.
              bind sftp (\<lambda>_.
              bind (call (SftpStat path) (\<lambda>h. stat_reply E h path)) (\<lambda>a3.
              S_ISREG (st_mode a3)))))))))))
             (\<lambda>n msg. if n = Some 2 then ret False else raise (IOError n msg)))"

subsection \<open>File attributes\<close>

text \<open>\<^verbatim>\<open>FileAttribute._valid_fields\<close>.\<close>

definition valid_fields :: "string list" where
  "valid_fields = [''st_size'', ''st_uid'', ''st_gid'', ''st_mode'', ''st_atime'', ''st_mtime'']"

type_synonym file_attribute = "string \<rightharpoonup> pyval"

text \<open>
  Modelled from the spec: the base class \<^verbatim>\<open>FixedFieldsAttributeDict\<close> of
  \<^verbatim>\<open>aida.common.extendeddicts\<close> is imported by the plugin and its source is not at hand.
  The specification says of the record: "No other fields permitted; assigning or reading
  any other name is an error." So storing under a name outside \<open>valid_fields\<close> is an
  error, and so is reading a name that holds nothing; the specification does not name the
  exception, \<open>KeyError\<close> stands for it.
\<close>

definition setitem :: "file_attribute \<Rightarrow> string \<Rightarrow> pyval \<Rightarrow> exn + file_attribute" where
  "setitem d key v =
     (if key \<in> set valid_fields then Inr (d(key \<mapsto> v)) else Inl (KeyError key))"

text \<open>
  Modelled from the spec: reading a name of a \<^verbatim>\<open>FixedFieldsAttributeDict\<close> ("reading any
  other name is an error"); a name that holds nothing cannot be read.
\<close>

definition getitem :: "file_attribute \<Rightarrow> string \<Rightarrow> exn + pyval" where
  "getitem d key = (case d key of None \<Rightarrow> Inl (KeyError key) | Some v \<Rightarrow> Inr v)"

definition py_int_option :: "int option \<Rightarrow> pyval" where
  "py_int_option v = (case v of None \<Rightarrow> PyNone | Some i \<Rightarrow> PyInt i)"

text \<open>\<^verbatim>\<open>getattr(paramiko_attr, key)\<close> on paramiko's attributes object.\<close>

definition getattr :: "sftp_attributes \<Rightarrow> string \<Rightarrow> exn + pyval" where
  "getattr a key =
     (if key = ''st_size'' then Inr (py_int_option (st_size a))
      else if key = ''st_uid'' then Inr (py_int_option (st_uid a))
      else if key = ''st_gid'' then Inr (py_int_option (st_gid a))
      else if key = ''st_mode'' then Inr (py_int_option (st_mode a))
      else if key = ''st_atime'' then Inr (py_int_option (st_atime a))
      else if key = ''st_mtime'' then Inr (py_int_option (st_mtime a))
      else if key = ''attr'' then Inr (PyDict (attr a))
      else if key = ''filename'' then
        (case filename a of None \<Rightarrow> Inl (AttributeError key) | Some f \<Rightarrow> Inr (PyStr f))
      else if key = ''longname'' then
        (case longname a of None \<Rightarrow> Inl (AttributeError key) | Some f \<Rightarrow> Inr (PyStr f))
      else Inl (AttributeError key))"

text \<open>The loop \<^verbatim>\<open>for key in aida_attr._valid_fields: aida_attr[key] = getattr(...)\<close>.\<close>

fun copy_fields :: "sftp_attributes \<Rightarrow> string list \<Rightarrow> file_attribute \<Rightarrow> exn + file_attribute" where
  "copy_fields a [] d = Inr d"
| "copy_fields a (key # keys) d =
     (case getattr a key of
        Inl e \<Rightarrow> Inl e
      | Inr v \<Rightarrow> (case setitem d key v of
                    Inl e \<Rightarrow> Inl e
                  | Inr d' \<Rightarrow> copy_fields a keys d'))"

definition get_attribute :: "env \<Rightarrow> string \<Rightarrow> file_attribute io" where
  "get_attribute E path =
     bind sftp (\<lambda>_.
     bind (call (SftpLstat path) (\<lambda>h. lstat_reply E h path)) (\<lambda>paramiko_attr.
     (\<lambda>t. (copy_fields paramiko_attr valid_fields Map.empty, t))))"

subsection \<open>Running commands\<close>

text \<open>
  \<^verbatim>\<open>_exec_command_internal\<close>. The streams and the channel it returns are those of the one
  channel opened last; the later calls on them are events of the same trace. The method
  reads \<^verbatim>\<open>self.getcwd()\<close> twice with nothing in between, the model reads it once.
\<close>

definition exec_command_internal :: "env \<Rightarrow> string \<Rightarrow> bool \<Rightarrow> int \<Rightarrow> unit io" where
  "exec_command_internal E command combine_stderr bufsize =
     bind sshclient (\<lambda>_.
     bind (call OpenSession (open_session_reply E)) (\<lambda>_.
     bind (call (SetCombineStderr combine_stderr) (\<lambda>h. Inr ())) (\<lambda>_.
     bind getcwd (\<lambda>folder.
     bind (ret (case folder of
                  None \<Rightarrow> command
                | Some f \<Rightarrow> ''cd '' @ escape_for_bash E f @ '' && '' @ command)) (\<lambda>command_to_execute.
     bind (log_record DEBUG (''Command to be executed: '' @ command_to_execute)) (\<lambda>_.
     bind (call (ExecCommand command_to_execute)
                (\<lambda>h. exec_command_reply E h command_to_execute)) (\<lambda>_.
     bind (call (MakefileStdin bufsize) (\<lambda>h. Inr ())) (\<lambda>_.
     bind (call (MakefileStdout bufsize) (\<lambda>h. Inr ())) (\<lambda>_.
     call (MakefileStderr bufsize) (\<lambda>h. Inr ()))))))))))"

text \<open>
  The \<^verbatim>\<open>stdin\<close> argument when it is not \<^verbatim>\<open>None\<close>: a string, an object with a
  \<^verbatim>\<open>readlines\<close> method (given by what a call of the method does: it returns a list of
  lines or raises), or any other object.
\<close>

datatype stdin_arg = StdinString string | StdinFile "exn + string list" | StdinOther

text \<open>\<^verbatim>\<open>StringIO(s).readlines()\<close>: the lines of \<open>s\<close>, each with its newline.\<close>

fun readlines_from :: "string \<Rightarrow> string \<Rightarrow> string list" where
  "readlines_from cur [] = (if cur = [] then [] else [cur])"
| "readlines_from cur (c # cs) =
     (if c = CHR 0x0A then (cur @ [c]) # readlines_from [] cs
      else readlines_from (cur @ [c]) cs)"

definition readlines :: "stdin_arg \<Rightarrow> string list io" where
  "readlines s =
     (case s of
        StdinString str \<Rightarrow> ret (readlines_from [] str)
      | StdinFile answer \<Rightarrow> (\<lambda>t. (answer, t))
      | StdinOther \<Rightarrow> raise (AttributeError ''readlines''))"

text \<open>The loop \<^verbatim>\<open>for l in filelike_stdin.readlines(): ssh_stdin.write(l)\<close>.\<close>

fun write_lines :: "env \<Rightarrow> string list \<Rightarrow> unit io" where
  "write_lines E [] = ret ()"
| "write_lines E (l # ls) =
     bind (call (StdinWrite l) (\<lambda>h. write_reply E h l)) (\<lambda>_. write_lines E ls)"

definition exec_command_wait ::
  "env \<Rightarrow> string \<Rightarrow> stdin_arg option \<Rightarrow> bool \<Rightarrow> int \<Rightarrow> (int \<times> string \<times> string) io" where
  "exec_command_wait E command stdin combine_stderr bufsize =
     bind (exec_command_internal E command combine_stderr bufsize) (\<lambda>_.
     bind (case stdin of
             None \<Rightarrow> ret ()
           | Some s \<Rightarrow>
               except_AttributeError
                 (bind (readlines s) (write_lines E))
                 (raise (ValueError
                    ''stdin can only be either a string of a file-like object!''))) (\<lambda>_.
     bind (call StdinFlush (flush_reply E)) (\<lambda>_.
     bind (call ShutdownWrite (shutdown_write_reply E)) (\<lambda>_.
     bind (call (StreamRead Stdout None) (stdout_reply E)) (\<lambda>output_text.
     bind (call RecvExitStatus (exit_status_reply E)) (\<lambda>retval.
     bind (call (StreamRead Stderr None) (stderr_reply E)) (\<lambda>stderr_text.
     ret (retval, output_text, stderr_text))))))))"

subsection \<open>Remote copy\<close>

text \<open>\<^verbatim>\<open>str.strip()\<close>: white space is removed at both ends.\<close>

definition is_space :: "char \<Rightarrow> bool" where
  "is_space c = (c \<in> set [CHR '' '', CHR 0x09, CHR 0x0A, CHR 0x0B, CHR 0x0C, CHR 0x0D])"

definition strip :: "string \<Rightarrow> string" where
  "strip s = rev (dropWhile is_space (rev (dropWhile is_space s)))"

definition copy :: "env \<Rightarrow> string \<Rightarrow> string \<Rightarrow> bool \<Rightarrow> bool io" where
  "copy E remotesource remotedestination dereference =
     (let cp_exe = ''cp'';
          cp_flags = ''-r -f'' @ (if dereference then '' -L'' else [])
      in if remotesource = []
         then raise (ValueError (''Input to copy() must be a non empty string. ''
                @ ''Found instead '' @ remotesource @ '' as remotesource''))
         else if remotedestination = []
         then raise (ValueError (''Input to copy() must be a non empty string. ''
                @ ''Found instead '' @ remotedestination @ '' as remotedestination''))
         else
           bind (exec_command_wait E
                   (cp_exe @ '' '' @ cp_flags @ '' '' @ escape_for_bash E remotesource
                    @ '' '' @ escape_for_bash E remotedestination)
                   None False (- 1)) (\<lambda>(retval, stdout, stderr).
           if retval = 0
           then bind (if strip stderr \<noteq> []
                      then log_record WARNING
                             (''There was nonempty stderr in the cp command: '' @ stderr)
                      else ret ()) (\<lambda>_.
                ret True)
           else bind (log_record ERROR
                        (''Problem executing cp. Exit code: '' @ str_int retval
                         @ '', stdout: '' @ [CHR 0x27] @ stdout @ [CHR 0x27]
                         @ '', stderr: '' @ [CHR 0x27] @ stderr @ [CHR 0x27])) (\<lambda>_.
                raise (IOError None
                         (''Error while executing cp. Exit code: '' @ str_int retval)))))"

section \<open>Notions used to state the properties\<close>

text \<open>The command line that \<^verbatim>\<open>_exec_command_internal\<close> composes in state \<open>t\<close>.\<close>

definition issued_command :: "env \<Rightarrow> transport \<Rightarrow> string \<Rightarrow> string" where
  "issued_command E t command =
     (case cwd t of
        None \<Rightarrow> command
      | Some f \<Rightarrow> ''cd '' @ escape_for_bash E f @ '' && '' @ command)"

text \<open>
  The lines that are to be written to the channel's standard input for a \<^verbatim>\<open>stdin\<close>
  argument: none for \<^verbatim>\<open>None\<close>, the lines of a string, the lines that \<^verbatim>\<open>readlines\<close>
  returns. The value is \<open>None\<close> for an object without \<^verbatim>\<open>readlines\<close> and for one whose
  \<^verbatim>\<open>readlines\<close> raises.
\<close>

definition stdin_lines :: "stdin_arg option \<Rightarrow> string list option" where
  "stdin_lines stdin =
     (case stdin of
        None \<Rightarrow> Some []
      | Some (StdinString str) \<Rightarrow> Some (readlines_from [] str)
      | Some (StdinFile (Inr ls)) \<Rightarrow> Some ls
      | Some (StdinFile (Inl e)) \<Rightarrow> None
      | Some StdinOther \<Rightarrow> None)"

text \<open>
  Every write of the lines \<open>ls\<close>, made one after the other from the trace \<open>h\<close> on, comes
  back without an exception.
\<close>

fun writes_accepted :: "env \<Rightarrow> event list \<Rightarrow> string list \<Rightarrow> bool" where
  "writes_accepted E h [] = True"
| "writes_accepted E h (l # ls) =
     (write_reply E h l = Inr () \<and> writes_accepted E (h @ [StdinWrite l]) ls)"

text \<open>
  The two parts of \<^verbatim>\<open>exec_command_wait\<close> that follow \<^verbatim>\<open>_exec_command_internal\<close>: the
  delivery of the input (lines 426 to 437 of the source) and the rest (lines 441 to
  451). They are used in proofs only.
\<close>

definition deliver_stdin :: "env \<Rightarrow> stdin_arg option \<Rightarrow> unit io" where
  "deliver_stdin E stdin =
     (case stdin of
        None \<Rightarrow> ret ()
      | Some s \<Rightarrow>
          except_AttributeError
            (bind (readlines s) (write_lines E))
            (raise (ValueError
               ''stdin can only be either a string of a file-like object!'')))"

definition half_close_and_drain :: "env \<Rightarrow> (int \<times> string \<times> string) io" where
  "half_close_and_drain E =
     bind (call StdinFlush (flush_reply E)) (\<lambda>_.
     bind (call ShutdownWrite (shutdown_write_reply E)) (\<lambda>_.
     bind (call (StreamRead Stdout None) (stdout_reply E)) (\<lambda>output_text.
     bind (call RecvExitStatus (exit_status_reply E)) (\<lambda>retval.
     bind (call (StreamRead Stderr None) (stderr_reply E)) (\<lambda>stderr_text.
     ret (retval, output_text, stderr_text))))))"

text \<open>The blocking reads: a read of either stream, the wait for the exit status.\<close>

fun drain_step :: "event \<Rightarrow> bool" where
  "drain_step (StreamRead s n) = True"
| "drain_step RecvExitStatus = True"
| "drain_step ev = False"

text \<open>The calls that end the input: flush and half-close.\<close>

fun closes_stdin :: "event \<Rightarrow> bool" where
  "closes_stdin StdinFlush = True"
| "closes_stdin ShutdownWrite = True"
| "closes_stdin ev = False"

text \<open>The calls made on a channel, from opening it to the last read.\<close>

fun channel_call :: "event \<Rightarrow> bool" where
  "channel_call OpenSession = True"
| "channel_call (SetCombineStderr c) = True"
| "channel_call (ExecCommand c) = True"
| "channel_call (MakefileStdin b) = True"
| "channel_call (MakefileStdout b) = True"
| "channel_call (MakefileStderr b) = True"
| "channel_call (StdinWrite l) = True"
| "channel_call StdinFlush = True"
| "channel_call ShutdownWrite = True"
| "channel_call (StreamRead s n) = True"
| "channel_call RecvExitStatus = True"
| "channel_call ev = False"


fun is_IOError :: "exn \<Rightarrow> bool" where
  "is_IOError (IOError n msg) = True"
| "is_IOError e = False"



definition not_open_ssh :: exn where
  "not_open_ssh = TransportInternalError
     ''Error, ssh method called for SshTransport without opening the channel first''"

definition not_open_sftp :: exn where
  "not_open_sftp = TransportInternalError
     ''Error, sftp method called for SshTransport without opening the channel first''"

section \<open>Example hosts\<close>

text \<open>
  An escape function for the examples: the argument between single quotes, each single
  quote of the argument written as \<^verbatim>\<open>'"'"'\<close>.
\<close>

definition quote_for_bash :: "string \<Rightarrow> string" where
  "quote_for_bash s =
     [CHR 0x27]
     @ concat (map (\<lambda>c. if c = CHR 0x27 then [CHR 0x27, CHR 0x22, CHR 0x27, CHR 0x22, CHR 0x27]
                         else [c]) s)
     @ [CHR 0x27]"

text \<open>A directory with mode \<^verbatim>\<open>040755\<close> and a regular file with mode \<^verbatim>\<open>0100644\<close>.\<close>

definition directory_attributes :: sftp_attributes where
  "directory_attributes =
     \<lparr>st_size = Some 4096, st_uid = Some 1000, st_gid = Some 1000, st_mode = Some 16877,
      st_atime = Some 1351000000, st_mtime = Some 1350000000,
      attr = [], filename = None, longname = None\<rparr>"

definition file_attributes :: sftp_attributes where
  "file_attributes =
     \<lparr>st_size = Some 12, st_uid = Some 1000, st_gid = Some 1000, st_mode = Some 33188,
      st_atime = Some 1351000000, st_mtime = Some 1350000000,
      attr = [(''note'', ''x'')], filename = Some ''a.txt'',
      longname = Some ''-rw-r--r-- 1 user user 12 a.txt''\<rparr>"

text \<open>
  A host where every request succeeds: each path is a directory except \<^verbatim>\<open>a.txt\<close>, a
  regular file, and \<^verbatim>\<open>missing\<close>, which does not exist; every command prints
  \<^verbatim>\<open>hello\<close> and exits with status 0.
\<close>

definition example_stat :: "string \<Rightarrow> exn + sftp_attributes" where
  "example_stat p =
     (if p = ''missing'' then Inl (IOError (Some 2) [])
      else if p = ''a.txt'' then Inr file_attributes
      else Inr directory_attributes)"

definition example_env :: env where
  "example_env =
     \<lparr>connect_reply = (\<lambda>h. Inr ()),
      open_sftp_reply = (\<lambda>h. Inr ()),
      chdir_reply = (\<lambda>h p. Inr p),
      normalize_reply = (\<lambda>h p. Inr (if p = ''.'' then ''/home/user'' else p)),
      stat_reply = (\<lambda>h. example_stat),
      lstat_reply = (\<lambda>h. example_stat),
      mkdir_reply = (\<lambda>h p. Inr ()),
      rmdir_reply = (\<lambda>h p. Inr ()),
      chmod_reply = (\<lambda>h p m. Inr ()),
      put_reply = (\<lambda>h l r. Inr file_attributes),
      get_reply = (\<lambda>h r l. Inr ()),
      listdir_reply = (\<lambda>h p. Inr [''a.txt'']),
      remove_reply = (\<lambda>h p. Inr ()),
      open_session_reply = (\<lambda>h. Inr ()),
      exec_command_reply = (\<lambda>h c. Inr ()),
      write_reply = (\<lambda>h l. Inr ()),
      flush_reply = (\<lambda>h. Inr ()),
      shutdown_write_reply = (\<lambda>h. Inr ()),
      stdout_reply = (\<lambda>h. Inr (''hello'' @ [CHR 0x0A])),
      exit_status_reply = (\<lambda>h. Inr 0),
      stderr_reply = (\<lambda>h. Inr []),
      attributes_str = (\<lambda>a. ''<SFTPAttributes>''),
      escape_for_bash = quote_for_bash\<rparr>"

text \<open>A transport that was never entered, and one that is open in \<^verbatim>\<open>/home/user\<close>.\<close>

definition fresh_transport :: transport where
  "fresh_transport =
     \<lparr>is_open = False, sftp_set = False, machine = ''localhost'', connect_args = [],
      cwd = None, trace = [SetMissingHostKeyPolicy (PyObj ''RejectPolicy'')], logged = []\<rparr>"

definition open_transport :: transport where
  "open_transport =
     \<lparr>is_open = True, sftp_set = True, machine = ''localhost'', connect_args = [],
      cwd = Some ''/home/user'',
      trace = [SetMissingHostKeyPolicy (PyObj ''RejectPolicy''), Connect ''localhost'' [],
               OpenSftp, SftpNormalize ''.'', SftpChdir ''/home/user''],
      logged = []\<rparr>"

text \<open>
  A host where the directory \<^verbatim>\<open>/secret\<close> can be entered but not read: once the
  working directory is \<^verbatim>\<open>/secret\<close>, a stat of \<^verbatim>\<open>.\<close> is refused (errno 13).
\<close>

definition unreadable_env :: env where
  "unreadable_env =
     example_env\<lparr>stat_reply :=
       (\<lambda>h p. if p = ''.'' \<and> h \<noteq> [] \<and> last h = SftpChdir ''/secret''
               then Inl (IOError (Some 13) []) else example_stat p)\<rparr>"

text \<open>
  A host where \<^verbatim>\<open>/root/new\<close> does not exist and may not be created (errno 13), and
  one where \<^verbatim>\<open>/home/user\<close> exists, so that creating it fails.
\<close>

definition denied_env :: env where
  "denied_env =
     example_env\<lparr>stat_reply := (\<lambda>h p. if p = ''/root/new'' then Inl (IOError (Some 2) [])
                                       else example_stat p),
                 mkdir_reply := (\<lambda>h p. Inl (IOError (Some 13) []))\<rparr>"

definition existing_env :: env where
  "existing_env = example_env\<lparr>mkdir_reply := (\<lambda>h p. Inl (IOError None ''Failure''))\<rparr>"


text \<open>Two hosts where \<^verbatim>\<open>cp\<close> exits with status 1, with different output.\<close>

definition failing_cp_env :: env where
  "failing_cp_env =
     example_env\<lparr>stdout_reply := (\<lambda>h. Inr []),
                 exit_status_reply := (\<lambda>h. Inr 1),
                 stderr_reply := (\<lambda>h. Inr ''cp: cannot stat a: No such file or directory'')\<rparr>"

definition failing_cp_env2 :: env where
  "failing_cp_env2 =
     example_env\<lparr>stdout_reply := (\<lambda>h. Inr ''x''),
                 exit_status_reply := (\<lambda>h. Inr 1),
                 stderr_reply :=
                   (\<lambda>h. Inr ''cp: cannot create regular file b: Permission denied'')\<rparr>"

text \<open>A host where \<^verbatim>\<open>cp\<close> succeeds and still writes to its standard error.\<close>

definition warning_cp_env :: env where
  "warning_cp_env = example_env\<lparr>stderr_reply := (\<lambda>h. Inr ''cp: warning'')\<rparr>"

text \<open>
  A host whose channel is closed by the other side once the command is issued: the
  first write on the input stream raises, and so would the flush.
\<close>

definition closed_channel_env :: env where
  "closed_channel_env =
     example_env\<lparr>write_reply := (\<lambda>h l. Inl (OtherError ''Socket is closed'')),
                 flush_reply := (\<lambda>h. Inl (OtherError ''Socket is closed''))\<rparr>"

text \<open>A host where the wait for the exit status raises.\<close>

definition lost_status_env :: env where
  "lost_status_env =
     example_env\<lparr>exit_status_reply := (\<lambda>h. Inl (SSHException ''Channel closed''))\<rparr>"

section \<open>The example transports\<close>

text \<open>
  The two example transports are what the constructor and \<^verbatim>\<open>__enter__\<close> produce on the
  example host, and \<^verbatim>\<open>__exit__\<close> leaves the open one closed.
\<close>

lemma init_example: "init ''localhost'' [] = (Inr (), fresh_transport)"
  by (simp add: init_def pop_default_def valid_connect_params_def fresh_transport_def)

lemma enter_example: "enter example_env fresh_transport = (Inr (), open_transport)"
  by (simp add: enter_def bind_def call_def sftp_chdir_def example_env_def
      fresh_transport_def open_transport_def)

lemma exit_example:
  "exit_transport open_transport =
     (Inr (), open_transport\<lparr>is_open := False,
                trace := trace open_transport @ [SftpClose, ClientClose]\<rparr>)"
  by (simp add: exit_transport_def bind_def call_def open_transport_def)

lemma init_rejects_unknown_parameter:
  "fst (init ''localhost'' [(''invalid_param'', PyBool True)]) =
     Inl (ValueError
       ''The following parameters were not accepted by the transport: invalid_param'')"
  by (simp add: init_def pop_default_def valid_connect_params_def)

section \<open>Running commands: auxiliary facts\<close>

lemma write_lines_trace:
  "write_lines E ls t = (r, t') \<Longrightarrow> \<exists>ws. t' = t\<lparr>trace := trace t @ map StdinWrite ws\<rparr>"
proof (induction ls arbitrary: t)
  case Nil
  then have "t' = t\<lparr>trace := trace t @ map StdinWrite []\<rparr>"
    by (simp add: ret_def)
  then show ?case by blast
next
  case (Cons l ls)
  show ?case
  proof (cases "write_reply E (trace t) l")
    case (Inl e)
    with Cons.prems have "t' = t\<lparr>trace := trace t @ map StdinWrite [l]\<rparr>"
      by (simp add: bind_def call_def)
    then show ?thesis by blast
  next
    case (Inr u)
    with Cons.prems have "write_lines E ls (t\<lparr>trace := trace t @ [StdinWrite l]\<rparr>) = (r, t')"
      by (simp add: bind_def call_def)
    from Cons.IH [OF this] obtain ws
      where "t' = t\<lparr>trace := trace t @ map StdinWrite (l # ws)\<rparr>"
      by auto
    then show ?thesis by blast
  qed
qed

lemma write_lines_accepted:
  "writes_accepted E (trace t) ls \<Longrightarrow>
   write_lines E ls t = (Inr (), t\<lparr>trace := trace t @ map StdinWrite ls\<rparr>)"
  by (induction ls arbitrary: t) (simp_all add: ret_def bind_def call_def)

lemma exec_command_internal_closed:
  "\<not> is_open t \<Longrightarrow> exec_command_internal E command cs b t = (Inl not_open_ssh, t)"
  by (simp add: exec_command_internal_def bind_def sshclient_def not_open_ssh_def)

lemma exec_command_internal_open:
  "is_open t \<Longrightarrow> exec_command_internal E command cs b t =
     (case open_session_reply E (trace t) of
        Inl e \<Rightarrow> (Inl e, t\<lparr>trace := trace t @ [OpenSession]\<rparr>)
      | Inr u \<Rightarrow>
          (case exec_command_reply E (trace t @ [OpenSession, SetCombineStderr cs])
                  (issued_command E t command) of
             Inl e \<Rightarrow>
               (Inl e, t\<lparr>trace := trace t @ [OpenSession, SetCombineStderr cs,
                                             ExecCommand (issued_command E t command)],
                         logged := logged t @ [(DEBUG, ''Command to be executed: ''
                                                 @ issued_command E t command)]\<rparr>)
           | Inr u \<Rightarrow>
               (Inr (), t\<lparr>trace := trace t @ [OpenSession, SetCombineStderr cs,
                                             ExecCommand (issued_command E t command),
                                             MakefileStdin b, MakefileStdout b, MakefileStderr b],
                         logged := logged t @ [(DEBUG, ''Command to be executed: ''
                                                 @ issued_command E t command)]\<rparr>)))"
  by (simp add: exec_command_internal_def bind_def sshclient_def call_def ret_def getcwd_def
      sftp_def log_record_def issued_command_def split: sum.splits option.splits)

lemma exec_command_internal_Inr:
  assumes "exec_command_internal E command cs b t = (Inr u, t1)"
  shows "is_open t"
    and "trace t1 = trace t @ [OpenSession, SetCombineStderr cs,
                               ExecCommand (issued_command E t command),
                               MakefileStdin b, MakefileStdout b, MakefileStderr b]"
    and "logged t1 = logged t @ [(DEBUG, ''Command to be executed: '' @ issued_command E t command)]"
    and "cwd t1 = cwd t" and "is_open t1 = is_open t"
proof -
  show o: "is_open t"
    using assms by (cases "is_open t") (simp_all add: exec_command_internal_closed)
  show "trace t1 = trace t @ [OpenSession, SetCombineStderr cs,
                               ExecCommand (issued_command E t command),
                               MakefileStdin b, MakefileStdout b, MakefileStderr b]"
    using assms o by (auto simp: exec_command_internal_open split: sum.splits)
  show "logged t1 = logged t @ [(DEBUG, ''Command to be executed: '' @ issued_command E t command)]"
    using assms o by (auto simp: exec_command_internal_open split: sum.splits)
  show "cwd t1 = cwd t"
    using assms o by (auto simp: exec_command_internal_open split: sum.splits)
  show "is_open t1 = is_open t"
    using assms o by (auto simp: exec_command_internal_open split: sum.splits)
qed

lemma exec_command_internal_Inl:
  assumes "exec_command_internal E command cs b t = (Inl e, t1)"
  shows "\<exists>new. trace t1 = trace t @ new \<and> filter drain_step new = []
           \<and> filter closes_stdin new = []"
proof (cases "is_open t")
  case False
  with assms show ?thesis by (simp add: exec_command_internal_closed)
next
  case True
  with assms show ?thesis
    by (auto simp: exec_command_internal_open split: sum.splits)
qed

lemma filter_drain_writes: "filter drain_step (map StdinWrite ls) = []"
  by (induction ls) simp_all

lemma filter_closes_writes: "filter closes_stdin (map StdinWrite ls) = []"
  by (induction ls) simp_all

lemma exec_command_wait_phases:
  "exec_command_wait E command stdin cs b =
     bind (exec_command_internal E command cs b) (\<lambda>_.
     bind (deliver_stdin E stdin) (\<lambda>_. half_close_and_drain E))"
  by (simp add: exec_command_wait_def deliver_stdin_def half_close_and_drain_def)

lemma deliver_stdin_trace:
  assumes "deliver_stdin E stdin t = (r, t')"
  shows "\<exists>ws. t' = t\<lparr>trace := trace t @ map StdinWrite ws\<rparr>"
proof (cases stdin)
  case None
  with assms have "t' = t\<lparr>trace := trace t @ map StdinWrite []\<rparr>"
    by (simp add: deliver_stdin_def ret_def)
  then show ?thesis by blast
next
  case (Some s)
  obtain r0 t0 where inner: "bind (readlines s) (write_lines E) t = (r0, t0)"
    by (cases "bind (readlines s) (write_lines E) t")
  have same: "t' = t0"
    using assms Some inner
    by (auto simp: deliver_stdin_def except_AttributeError_def raise_def
        split: sum.splits exn.splits)
  have "\<exists>ws. t0 = t\<lparr>trace := trace t @ map StdinWrite ws\<rparr>"
  proof (cases "readlines s t")
    case (Pair rl tl)
    then have tl: "tl = t"
      by (auto simp: readlines_def ret_def raise_def split: stdin_arg.splits)
    show ?thesis
    proof (cases rl)
      case (Inl e)
      with Pair tl inner have "t0 = t\<lparr>trace := trace t @ map StdinWrite []\<rparr>"
        by (simp add: bind_def)
      then show ?thesis by blast
    next
      case (Inr ls)
      with Pair tl inner have "write_lines E ls t = (r0, t0)"
        by (simp add: bind_def)
      then show ?thesis by (rule write_lines_trace)
    qed
  qed
  with same show ?thesis by simp
qed

lemma deliver_stdin_accepted:
  assumes "stdin_lines stdin = Some ls" and "writes_accepted E (trace t) ls"
  shows "deliver_stdin E stdin t = (Inr (), t\<lparr>trace := trace t @ map StdinWrite ls\<rparr>)"
proof (cases stdin)
  case None
  with assms show ?thesis by (simp add: deliver_stdin_def stdin_lines_def ret_def)
next
  case (Some s)
  with assms(1) have "readlines s t = (Inr ls, t)"
    by (auto simp: stdin_lines_def readlines_def ret_def split: stdin_arg.splits sum.splits)
  with Some assms(2) show ?thesis
    by (simp add: deliver_stdin_def except_AttributeError_def bind_def write_lines_accepted)
qed

lemma deliver_stdin_other:
  "deliver_stdin E (Some StdinOther) t =
     (Inl (ValueError ''stdin can only be either a string of a file-like object!''), t)"
  by (simp add: deliver_stdin_def except_AttributeError_def bind_def readlines_def raise_def)

lemma half_close_and_drain_cases:
  "half_close_and_drain E t =
     (case flush_reply E (trace t) of
        Inl e \<Rightarrow> (Inl e, t\<lparr>trace := trace t @ [StdinFlush]\<rparr>)
      | Inr u \<Rightarrow>
     (case shutdown_write_reply E (trace t @ [StdinFlush]) of
        Inl e \<Rightarrow> (Inl e, t\<lparr>trace := trace t @ [StdinFlush, ShutdownWrite]\<rparr>)
      | Inr u \<Rightarrow>
     (case stdout_reply E (trace t @ [StdinFlush, ShutdownWrite]) of
        Inl e \<Rightarrow> (Inl e, t\<lparr>trace := trace t @ [StdinFlush, ShutdownWrite,
                                                 StreamRead Stdout None]\<rparr>)
      | Inr output_text \<Rightarrow>
     (case exit_status_reply E (trace t @ [StdinFlush, ShutdownWrite, StreamRead Stdout None]) of
        Inl e \<Rightarrow> (Inl e, t\<lparr>trace := trace t @ [StdinFlush, ShutdownWrite,
                                                 StreamRead Stdout None, RecvExitStatus]\<rparr>)
      | Inr retval \<Rightarrow>
     (case stderr_reply E (trace t @ [StdinFlush, ShutdownWrite, StreamRead Stdout None,
                                      RecvExitStatus]) of
        Inl e \<Rightarrow> (Inl e, t\<lparr>trace := trace t @ [StdinFlush, ShutdownWrite,
                             StreamRead Stdout None, RecvExitStatus, StreamRead Stderr None]\<rparr>)
      | Inr stderr_text \<Rightarrow>
          (Inr (retval, output_text, stderr_text),
           t\<lparr>trace := trace t @ [StdinFlush, ShutdownWrite, StreamRead Stdout None,
                                 RecvExitStatus, StreamRead Stderr None]\<rparr>))))))"
  by (simp add: half_close_and_drain_def bind_def call_def ret_def split: sum.splits)

lemma exec_command_wait_raises:
  "exec_command_internal E command cs b t = (Inl e, t1) \<Longrightarrow>
   exec_command_wait E command stdin cs b t = (Inl e, t1)"
  by (simp add: exec_command_wait_phases bind_def)

lemma exec_command_wait_invalid:
  "exec_command_internal E command cs b t = (Inr u, t1) \<Longrightarrow>
   exec_command_wait E command (Some StdinOther) cs b t =
     (Inl (ValueError ''stdin can only be either a string of a file-like object!''), t1)"
  by (simp add: exec_command_wait_phases bind_def deliver_stdin_other)

lemma exec_command_wait_after_issue:
  "exec_command_internal E command cs b t = (Inr u, t1) \<Longrightarrow> stdin_lines stdin = Some ls \<Longrightarrow>
   writes_accepted E (trace t1) ls \<Longrightarrow>
   exec_command_wait E command stdin cs b t =
     half_close_and_drain E (t1\<lparr>trace := trace t1 @ map StdinWrite ls\<rparr>)"
  by (simp add: exec_command_wait_phases bind_def deliver_stdin_accepted)

lemma exec_command_wait_no_stdin:
  "exec_command_internal E command cs b t = (Inr u, t1) \<Longrightarrow>
   exec_command_wait E command None cs b t = half_close_and_drain E t1"
  by (simp add: exec_command_wait_phases bind_def deliver_stdin_def ret_def)

text \<open>
  Every run of \<^verbatim>\<open>exec_command_wait\<close> either raises before the flush, having made no
  flush, half-close or read, or reaches the flush in a state whose new calls contain
  none of these, and ends as the last part of the method ends from there.
\<close>

lemma exec_command_wait_shape:
  assumes "exec_command_wait E command stdin cs b t = (r, t')"
  shows "((\<exists>e. r = Inl e) \<and> (\<exists>new. trace t' = trace t @ new \<and> filter drain_step new = []
              \<and> filter closes_stdin new = []))
       \<or> (\<exists>t2 before. trace t2 = trace t @ before \<and> filter drain_step before = []
              \<and> filter closes_stdin before = [] \<and> half_close_and_drain E t2 = (r, t'))"
proof (cases "exec_command_internal E command cs b t")
  case (Pair r1 t1)
  show ?thesis
  proof (cases r1)
    case (Inl e)
    with Pair assms have "r = Inl e" "t' = t1"
      by (simp_all add: exec_command_wait_raises)
    with Pair Inl exec_command_internal_Inl [of E command cs b t e t1]
    show ?thesis by auto
  next
    case (Inr u)
    with Pair have run: "exec_command_internal E command cs b t = (Inr u, t1)" by simp
    let ?pre = "[OpenSession, SetCombineStderr cs, ExecCommand (issued_command E t command),
                 MakefileStdin b, MakefileStdout b, MakefileStderr b]"
    have tr: "trace t1 = trace t @ ?pre"
      using exec_command_internal_Inr(2) [OF run] .
    obtain r2 t2 where del: "deliver_stdin E stdin t1 = (r2, t2)"
      by (cases "deliver_stdin E stdin t1")
    from deliver_stdin_trace [OF del] obtain ws
      where t2: "t2 = t1\<lparr>trace := trace t1 @ map StdinWrite ws\<rparr>" by blast
    have tr2: "trace t2 = trace t @ (?pre @ map StdinWrite ws)"
      by (simp add: t2 tr)
    have clean: "filter drain_step (?pre @ map StdinWrite ws) = []"
                "filter closes_stdin (?pre @ map StdinWrite ws) = []"
      by (simp_all add: filter_drain_writes filter_closes_writes)
    show ?thesis
    proof (cases r2)
      case (Inl e)
      with run del assms have "r = Inl e" "t' = t2"
        by (simp_all add: exec_command_wait_phases bind_def)
      with tr2 clean show ?thesis by blast
    next
      case (Inr u2)
      with run del assms have "half_close_and_drain E t2 = (r, t')"
        by (simp add: exec_command_wait_phases bind_def)
      with tr2 clean show ?thesis by blast
    qed
  qed
qed

lemma writes_accepted_example: "writes_accepted example_env h ls"
  by (induction ls arbitrary: h) (simp_all add: example_env_def)

lemma example_exec_command_internal:
  "exec_command_internal example_env command cs b open_transport =
     (Inr (), open_transport
        \<lparr>trace := trace open_transport @ [OpenSession, SetCombineStderr cs,
             ExecCommand (''cd '' @ quote_for_bash ''/home/user'' @ '' && '' @ command),
             MakefileStdin b, MakefileStdout b, MakefileStderr b],
         logged := [(DEBUG, ''Command to be executed: ''
                       @ ''cd '' @ quote_for_bash ''/home/user'' @ '' && '' @ command)]\<rparr>)"
  by (simp add: exec_command_internal_open issued_command_def open_transport_def example_env_def)

lemma example_exec_command_wait:
  "stdin_lines stdin = Some ls \<Longrightarrow>
   exec_command_wait example_env command stdin cs b open_transport =
     (Inr (0, ''hello'' @ [CHR 0x0A], []),
      open_transport
        \<lparr>trace := trace open_transport @ [OpenSession, SetCombineStderr cs,
             ExecCommand (''cd '' @ quote_for_bash ''/home/user'' @ '' && '' @ command),
             MakefileStdin b, MakefileStdout b, MakefileStderr b] @ map StdinWrite ls
             @ [StdinFlush, ShutdownWrite, StreamRead Stdout None, RecvExitStatus,
                StreamRead Stderr None],
         logged := [(DEBUG, ''Command to be executed: ''
                       @ ''cd '' @ quote_for_bash ''/home/user'' @ '' && '' @ command)]\<rparr>)"
  by (simp add: exec_command_wait_after_issue [OF example_exec_command_internal _
        writes_accepted_example] half_close_and_drain_cases)
     (simp add: example_env_def)

section \<open>Order of the blocking reads\<close>

text \<open>
  Claim C1, as amended. In \<^verbatim>\<open>exec_command_wait\<close>, for every executed command whose
  \<^verbatim>\<open>stdin\<close> argument was delivered (it is \<^verbatim>\<open>None\<close>, a string or an object whose
  \<^verbatim>\<open>readlines\<close> returns, and each write comes back) and whose input stream was flushed
  and half-closed, the output stream is read to its end; once that read has come back
  the exit status is asked for; once the exit status has come back the error stream is
  read to its end; then the three values are returned. A step is left out only when the
  step before it raised. In every run whatever, the blocking reads that are made are the
  first none, one, two or three of \<^verbatim>\<open>stdout.read()\<close>, \<^verbatim>\<open>recv_exit_status()\<close>,
  \<^verbatim>\<open>stderr.read()\<close>, in this order, both reads without a size, and a run that returns has
  made all three, as its last three calls.
\<close>

theorem exec_command_wait_drain_order:
  assumes "exec_command_wait E command stdin cs b t = (r, t')"
  shows "(\<exists>new. trace t' = trace t @ new
            \<and> filter drain_step new \<in>
                 {[], [StreamRead Stdout None], [StreamRead Stdout None, RecvExitStatus],
                  [StreamRead Stdout None, RecvExitStatus, StreamRead Stderr None]}
            \<and> (\<forall>retval output_text stderr_text. r = Inr (retval, output_text, stderr_text) \<longrightarrow>
                 (\<exists>before. new = before @ [StreamRead Stdout None, RecvExitStatus,
                                            StreamRead Stderr None]
                    \<and> filter drain_step before = []
                    \<and> stdout_reply E (trace t @ before) = Inr output_text
                    \<and> exit_status_reply E (trace t @ before @ [StreamRead Stdout None])
                        = Inr retval
                    \<and> stderr_reply E (trace t @ before
                                        @ [StreamRead Stdout None, RecvExitStatus])
                        = Inr stderr_text)))
       \<and> (\<forall>t1 ls. exec_command_internal E command cs b t = (Inr (), t1)
               \<and> stdin_lines stdin = Some ls
               \<and> writes_accepted E (trace t1) ls
               \<and> flush_reply E (trace t1 @ map StdinWrite ls) = Inr ()
               \<and> shutdown_write_reply E (trace t1 @ map StdinWrite ls @ [StdinFlush]) = Inr ()
             \<longrightarrow>
               (let h = trace t1 @ map StdinWrite ls @ [StdinFlush, ShutdownWrite] in
                (r, trace t') =
                  (case stdout_reply E h of
                     Inl e \<Rightarrow> (Inl e, h @ [StreamRead Stdout None])
                   | Inr output_text \<Rightarrow>
                  (case exit_status_reply E (h @ [StreamRead Stdout None]) of
                     Inl e \<Rightarrow> (Inl e, h @ [StreamRead Stdout None, RecvExitStatus])
                   | Inr retval \<Rightarrow>
                  (case stderr_reply E (h @ [StreamRead Stdout None, RecvExitStatus]) of
                     Inl e \<Rightarrow> (Inl e, h @ [StreamRead Stdout None, RecvExitStatus,
                                            StreamRead Stderr None])
                   | Inr stderr_text \<Rightarrow>
                       (Inr (retval, output_text, stderr_text),
                        h @ [StreamRead Stdout None, RecvExitStatus,
                             StreamRead Stderr None]))))))"
proof (rule conjI)
  from exec_command_wait_shape [OF assms]
  show "\<exists>new. trace t' = trace t @ new
            \<and> filter drain_step new \<in>
                 {[], [StreamRead Stdout None], [StreamRead Stdout None, RecvExitStatus],
                  [StreamRead Stdout None, RecvExitStatus, StreamRead Stderr None]}
            \<and> (\<forall>retval output_text stderr_text. r = Inr (retval, output_text, stderr_text) \<longrightarrow>
                 (\<exists>before. new = before @ [StreamRead Stdout None, RecvExitStatus,
                                            StreamRead Stderr None]
                    \<and> filter drain_step before = []
                    \<and> stdout_reply E (trace t @ before) = Inr output_text
                    \<and> exit_status_reply E (trace t @ before @ [StreamRead Stdout None])
                        = Inr retval
                    \<and> stderr_reply E (trace t @ before
                                        @ [StreamRead Stdout None, RecvExitStatus])
                        = Inr stderr_text))"
  proof (elim disjE conjE exE)
    fix e new
    assume "r = Inl e" "trace t' = trace t @ new" "filter drain_step new = []"
    then show ?thesis by auto
  next
    fix t2 before
    assume t2: "trace t2 = trace t @ before" and clean: "filter drain_step before = []"
      and tail: "half_close_and_drain E t2 = (r, t')"
    let ?h = "before @ [StdinFlush, ShutdownWrite]"
    have h: "filter drain_step ?h = []" using clean by simp
    consider
        (flush) e where "r = Inl e" "trace t' = trace t @ before @ [StdinFlush]"
      | (close) e where "r = Inl e" "trace t' = trace t @ ?h"
      | (out) e where "r = Inl e" "trace t' = trace t @ ?h @ [StreamRead Stdout None]"
      | (status) e where "r = Inl e"
          "trace t' = trace t @ ?h @ [StreamRead Stdout None, RecvExitStatus]"
      | (err) e where "r = Inl e"
          "trace t' = trace t @ ?h @ [StreamRead Stdout None, RecvExitStatus,
                                      StreamRead Stderr None]"
      | (returned) retval output_text stderr_text where
          "r = Inr (retval, output_text, stderr_text)"
          "trace t' = trace t @ ?h @ [StreamRead Stdout None, RecvExitStatus,
                                      StreamRead Stderr None]"
          "stdout_reply E (trace t @ ?h) = Inr output_text"
          "exit_status_reply E (trace t @ ?h @ [StreamRead Stdout None]) = Inr retval"
          "stderr_reply E (trace t @ ?h @ [StreamRead Stdout None, RecvExitStatus])
             = Inr stderr_text"
      using tail t2 by (auto simp: half_close_and_drain_cases split: sum.splits)
    then show ?thesis
    proof cases
      case flush
      with clean show ?thesis
        by (intro exI [of _ "before @ [StdinFlush]"]) simp
    next
      case close
      with h show ?thesis
        by (intro exI [of _ ?h]) simp
    next
      case out
      with h show ?thesis
        by (intro exI [of _ "?h @ [StreamRead Stdout None]"]) simp
    next
      case status
      with h show ?thesis
        by (intro exI [of _ "?h @ [StreamRead Stdout None, RecvExitStatus]"]) simp
    next
      case err
      with h show ?thesis
        by (intro exI [of _ "?h @ [StreamRead Stdout None, RecvExitStatus,
                                   StreamRead Stderr None]"]) simp
    next
      case returned
      have "\<exists>bf. ?h @ [StreamRead Stdout None, RecvExitStatus, StreamRead Stderr None]
                   = bf @ [StreamRead Stdout None, RecvExitStatus, StreamRead Stderr None]
                \<and> filter drain_step bf = []
                \<and> stdout_reply E (trace t @ bf) = Inr output_text
                \<and> exit_status_reply E (trace t @ bf @ [StreamRead Stdout None]) = Inr retval
                \<and> stderr_reply E (trace t @ bf @ [StreamRead Stdout None, RecvExitStatus])
                     = Inr stderr_text"
        using returned h by (intro exI [of _ ?h]) simp
      with returned h show ?thesis
        by (intro exI [of _ "?h @ [StreamRead Stdout None, RecvExitStatus,
                                   StreamRead Stderr None]"]) simp
    qed
  qed
next
  show "\<forall>t1 ls. exec_command_internal E command cs b t = (Inr (), t1)
               \<and> stdin_lines stdin = Some ls
               \<and> writes_accepted E (trace t1) ls
               \<and> flush_reply E (trace t1 @ map StdinWrite ls) = Inr ()
               \<and> shutdown_write_reply E (trace t1 @ map StdinWrite ls @ [StdinFlush]) = Inr ()
             \<longrightarrow>
               (let h = trace t1 @ map StdinWrite ls @ [StdinFlush, ShutdownWrite] in
                (r, trace t') =
                  (case stdout_reply E h of
                     Inl e \<Rightarrow> (Inl e, h @ [StreamRead Stdout None])
                   | Inr output_text \<Rightarrow>
                  (case exit_status_reply E (h @ [StreamRead Stdout None]) of
                     Inl e \<Rightarrow> (Inl e, h @ [StreamRead Stdout None, RecvExitStatus])
                   | Inr retval \<Rightarrow>
                  (case stderr_reply E (h @ [StreamRead Stdout None, RecvExitStatus]) of
                     Inl e \<Rightarrow> (Inl e, h @ [StreamRead Stdout None, RecvExitStatus,
                                            StreamRead Stderr None])
                   | Inr stderr_text \<Rightarrow>
                       (Inr (retval, output_text, stderr_text),
                        h @ [StreamRead Stdout None, RecvExitStatus,
                             StreamRead Stderr None])))))"
  proof (intro allI impI, elim conjE)
    fix t1 ls
    assume run: "exec_command_internal E command cs b t = (Inr (), t1)"
      and lines: "stdin_lines stdin = Some ls"
      and writes: "writes_accepted E (trace t1) ls"
      and flush: "flush_reply E (trace t1 @ map StdinWrite ls) = Inr ()"
      and close: "shutdown_write_reply E (trace t1 @ map StdinWrite ls @ [StdinFlush]) = Inr ()"
    from exec_command_wait_after_issue [OF run lines writes] assms
    have "half_close_and_drain E (t1\<lparr>trace := trace t1 @ map StdinWrite ls\<rparr>) = (r, t')"
      by simp
    with flush close
    show "let h = trace t1 @ map StdinWrite ls @ [StdinFlush, ShutdownWrite] in
                (r, trace t') =
                  (case stdout_reply E h of
                     Inl e \<Rightarrow> (Inl e, h @ [StreamRead Stdout None])
                   | Inr output_text \<Rightarrow>
                  (case exit_status_reply E (h @ [StreamRead Stdout None]) of
                     Inl e \<Rightarrow> (Inl e, h @ [StreamRead Stdout None, RecvExitStatus])
                   | Inr retval \<Rightarrow>
                  (case stderr_reply E (h @ [StreamRead Stdout None, RecvExitStatus]) of
                     Inl e \<Rightarrow> (Inl e, h @ [StreamRead Stdout None, RecvExitStatus,
                                            StreamRead Stderr None])
                   | Inr stderr_text \<Rightarrow>
                       (Inr (retval, output_text, stderr_text),
                        h @ [StreamRead Stdout None, RecvExitStatus,
                             StreamRead Stderr None]))))"
      by (auto simp: half_close_and_drain_cases Let_def split: sum.splits)
  qed
qed

theorem exec_command_wait_drain_order_witness:
  "exec_command_wait example_env ''cat'' (Some (StdinString ''abc'')) False (- 1) open_transport
     = (Inr (0, ''hello'' @ [CHR 0x0A], []),
        snd (exec_command_wait example_env ''cat'' (Some (StdinString ''abc'')) False (- 1)
               open_transport))
   \<and> (\<exists>before. trace (snd (exec_command_wait example_env ''cat'' (Some (StdinString ''abc''))
                              False (- 1) open_transport))
          = trace open_transport @ before
            @ [StreamRead Stdout None, RecvExitStatus, StreamRead Stderr None]
        \<and> filter drain_step before = [])
   \<and> exec_command_internal lost_status_env ''cat'' False (- 1) open_transport
       = (Inr (), snd (exec_command_internal lost_status_env ''cat'' False (- 1) open_transport))
   \<and> fst (exec_command_wait lost_status_env ''cat'' None False (- 1) open_transport)
       = Inl (SSHException ''Channel closed'')
   \<and> trace (snd (exec_command_wait lost_status_env ''cat'' None False (- 1) open_transport))
       = trace (snd (exec_command_internal lost_status_env ''cat'' False (- 1) open_transport))
         @ [StdinFlush, ShutdownWrite, StreamRead Stdout None, RecvExitStatus]"
proof -
  have lines: "stdin_lines (Some (StdinString ''abc'')) = Some [''abc'']"
    by (simp add: stdin_lines_def)
  have run: "exec_command_wait example_env ''cat'' (Some (StdinString ''abc'')) False (- 1)
               open_transport
     = (Inr (0, ''hello'' @ [CHR 0x0A], []),
        snd (exec_command_wait example_env ''cat'' (Some (StdinString ''abc'')) False (- 1)
               open_transport))"
    by (simp add: example_exec_command_wait [OF lines])
  from exec_command_wait_drain_order [OF run]
  have first: "\<exists>before. trace (snd (exec_command_wait example_env ''cat''
                              (Some (StdinString ''abc'')) False (- 1) open_transport))
          = trace open_transport @ before
            @ [StreamRead Stdout None, RecvExitStatus, StreamRead Stderr None]
        \<and> filter drain_step before = []"
    by auto
  have a: "is_open open_transport" by (simp add: open_transport_def)
  let ?t1 = "snd (exec_command_internal lost_status_env ''cat'' False (- 1) open_transport)"
  have internal: "exec_command_internal lost_status_env ''cat'' False (- 1) open_transport
       = (Inr (), ?t1)"
    by (simp add: exec_command_internal_open [OF a])
       (simp add: lost_status_env_def example_env_def)
  have hyps: "stdin_lines None = Some []" "writes_accepted lost_status_env (trace ?t1) []"
    "flush_reply lost_status_env (trace ?t1 @ map StdinWrite []) = Inr ()"
    "shutdown_write_reply lost_status_env (trace ?t1 @ map StdinWrite [] @ [StdinFlush]) = Inr ()"
    by (simp_all add: stdin_lines_def lost_status_env_def example_env_def)
  have replies:
    "stdout_reply lost_status_env = (\<lambda>h. Inr (''hello'' @ [CHR 0x0A]))"
    "exit_status_reply lost_status_env = (\<lambda>h. Inl (SSHException ''Channel closed''))"
    by (simp_all add: lost_status_env_def example_env_def)
  have pair: "exec_command_wait lost_status_env ''cat'' None False (- 1) open_transport
     = (fst (exec_command_wait lost_status_env ''cat'' None False (- 1) open_transport),
        snd (exec_command_wait lost_status_env ''cat'' None False (- 1) open_transport))"
    by simp
  have "(let h = trace ?t1 @ map StdinWrite [] @ [StdinFlush, ShutdownWrite] in
          (fst (exec_command_wait lost_status_env ''cat'' None False (- 1) open_transport),
           trace (snd (exec_command_wait lost_status_env ''cat'' None False (- 1) open_transport)))
          = (case stdout_reply lost_status_env h of
                     Inl e \<Rightarrow> (Inl e, h @ [StreamRead Stdout None])
                   | Inr output_text \<Rightarrow>
                  (case exit_status_reply lost_status_env (h @ [StreamRead Stdout None]) of
                     Inl e \<Rightarrow> (Inl e, h @ [StreamRead Stdout None, RecvExitStatus])
                   | Inr retval \<Rightarrow>
                  (case stderr_reply lost_status_env (h @ [StreamRead Stdout None, RecvExitStatus]) of
                     Inl e \<Rightarrow> (Inl e, h @ [StreamRead Stdout None, RecvExitStatus,
                                            StreamRead Stderr None])
                   | Inr stderr_text \<Rightarrow>
                       (Inr (retval, output_text, stderr_text),
                        h @ [StreamRead Stdout None, RecvExitStatus,
                             StreamRead Stderr None])))))"
    by (rule exec_command_wait_drain_order [OF pair, THEN conjunct2, rule_format,
          of ?t1 "[]"])
       (intro conjI internal hyps)
  then have second:
    "fst (exec_command_wait lost_status_env ''cat'' None False (- 1) open_transport)
       = Inl (SSHException ''Channel closed'')"
    "trace (snd (exec_command_wait lost_status_env ''cat'' None False (- 1) open_transport))
       = trace ?t1 @ [StdinFlush, ShutdownWrite, StreamRead Stdout None, RecvExitStatus]"
    by (simp_all add: replies Let_def)
  from run first internal second show ?thesis by blast
qed

text \<open>
  The claim as it was stated has none of the three steps left out for any executed
  command. On the example host, with a \<^verbatim>\<open>stdin\<close> argument that has no \<^verbatim>\<open>readlines\<close>, the
  command \<^verbatim>\<open>cat\<close> is executed and the method leaves without any of the three reads.
\<close>

theorem wrong_stdin_skips_the_reads:
  "ExecCommand (''cd '' @ [CHR 0x27] @ ''/home/user'' @ [CHR 0x27] @ '' && cat'')
     \<in> set (trace (snd (exec_command_wait example_env ''cat'' (Some StdinOther) False (- 1)
                          open_transport)))
   \<and> filter drain_step
       (trace (snd (exec_command_wait example_env ''cat'' (Some StdinOther) False (- 1)
                      open_transport))) = []"
  by (simp add: exec_command_wait_invalid [OF example_exec_command_internal])
     (simp add: open_transport_def quote_for_bash_def)

section \<open>End of input before the output is read\<close>

text \<open>
  Claim C10, as amended. On every invocation of \<^verbatim>\<open>exec_command_wait\<close> in which the
  command has been issued and the \<^verbatim>\<open>stdin\<close> argument is delivered (it is \<^verbatim>\<open>None\<close>, a
  string or an object whose \<^verbatim>\<open>readlines\<close> returns, and each write comes back), also when
  no \<^verbatim>\<open>stdin\<close> is given, the next call is the flush of the input stream; when the flush
  comes back the next call is the half-close of its write side; when that comes back
  the next call is the read of the output stream. In every invocation whatever, the
  output stream is read only straight after a flush and a half-close, which are then the
  only ones of the run, and no other blocking read comes before them.
\<close>

theorem exec_command_wait_half_close:
  assumes "exec_command_wait E command stdin cs b t = (r, t')"
  shows "(\<exists>new. trace t' = trace t @ new
            \<and> (filter drain_step new = []
               \<or> (\<exists>before after.
                     new = before @ [StdinFlush, ShutdownWrite, StreamRead Stdout None] @ after
                     \<and> filter drain_step before = [] \<and> filter closes_stdin before = []
                     \<and> filter closes_stdin after = [])))
       \<and> (\<forall>t1 ls. exec_command_internal E command cs b t = (Inr (), t1)
               \<and> stdin_lines stdin = Some ls
               \<and> writes_accepted E (trace t1) ls
             \<longrightarrow>
               (let h = trace t1 @ map StdinWrite ls in
                case flush_reply E h of
                  Inl e \<Rightarrow> r = Inl e \<and> trace t' = h @ [StdinFlush]
                | Inr u \<Rightarrow>
               (case shutdown_write_reply E (h @ [StdinFlush]) of
                  Inl e \<Rightarrow> r = Inl e \<and> trace t' = h @ [StdinFlush, ShutdownWrite]
                | Inr u \<Rightarrow>
                    (\<exists>after. trace t' = h @ [StdinFlush, ShutdownWrite, StreamRead Stdout None]
                                          @ after))))
       \<and> (\<forall>t1. exec_command_internal E command cs b t = (Inr (), t1) \<and> stdin = None
             \<longrightarrow> (\<exists>rest. trace t' = trace t1 @ StdinFlush # rest))"
proof (intro conjI)
  from exec_command_wait_shape [OF assms]
  show "\<exists>new. trace t' = trace t @ new
            \<and> (filter drain_step new = []
               \<or> (\<exists>before after.
                     new = before @ [StdinFlush, ShutdownWrite, StreamRead Stdout None] @ after
                     \<and> filter drain_step before = [] \<and> filter closes_stdin before = []
                     \<and> filter closes_stdin after = []))"
  proof (elim disjE conjE exE)
    fix e new
    assume "r = Inl e" "trace t' = trace t @ new" "filter drain_step new = []"
    then show ?thesis by auto
  next
    fix t2 before
    assume t2: "trace t2 = trace t @ before" and clean: "filter drain_step before = []"
      "filter closes_stdin before = []"
      and tail: "half_close_and_drain E t2 = (r, t')"
    consider
        (flush) "trace t' = trace t @ before @ [StdinFlush]"
      | (close) "trace t' = trace t @ before @ [StdinFlush, ShutdownWrite]"
      | (read) after where
          "trace t' = trace t @ before @ [StdinFlush, ShutdownWrite, StreamRead Stdout None]
                        @ after"
          "filter closes_stdin after = []"
      using tail t2 by (auto simp: half_close_and_drain_cases split: sum.splits)
    then show ?thesis
    proof cases
      case flush
      with clean show ?thesis
        by (intro exI [of _ "before @ [StdinFlush]"]) simp
    next
      case close
      with clean show ?thesis
        by (intro exI [of _ "before @ [StdinFlush, ShutdownWrite]"]) simp
    next
      case read
      with clean show ?thesis
        by (intro exI [of _ "before @ [StdinFlush, ShutdownWrite, StreamRead Stdout None]
                               @ after"]) auto
    qed
  qed
next
  show "\<forall>t1 ls. exec_command_internal E command cs b t = (Inr (), t1)
               \<and> stdin_lines stdin = Some ls
               \<and> writes_accepted E (trace t1) ls
             \<longrightarrow>
               (let h = trace t1 @ map StdinWrite ls in
                case flush_reply E h of
                  Inl e \<Rightarrow> r = Inl e \<and> trace t' = h @ [StdinFlush]
                | Inr u \<Rightarrow>
               (case shutdown_write_reply E (h @ [StdinFlush]) of
                  Inl e \<Rightarrow> r = Inl e \<and> trace t' = h @ [StdinFlush, ShutdownWrite]
                | Inr u \<Rightarrow>
                    (\<exists>after. trace t' = h @ [StdinFlush, ShutdownWrite, StreamRead Stdout None]
                                          @ after)))"
  proof (intro allI impI, elim conjE)
    fix t1 ls
    assume run: "exec_command_internal E command cs b t = (Inr (), t1)"
      and lines: "stdin_lines stdin = Some ls"
      and writes: "writes_accepted E (trace t1) ls"
    from exec_command_wait_after_issue [OF run lines writes] assms
    have "half_close_and_drain E (t1\<lparr>trace := trace t1 @ map StdinWrite ls\<rparr>) = (r, t')"
      by simp
    then show "let h = trace t1 @ map StdinWrite ls in
                case flush_reply E h of
                  Inl e \<Rightarrow> r = Inl e \<and> trace t' = h @ [StdinFlush]
                | Inr u \<Rightarrow>
               (case shutdown_write_reply E (h @ [StdinFlush]) of
                  Inl e \<Rightarrow> r = Inl e \<and> trace t' = h @ [StdinFlush, ShutdownWrite]
                | Inr u \<Rightarrow>
                    (\<exists>after. trace t' = h @ [StdinFlush, ShutdownWrite, StreamRead Stdout None]
                                          @ after))"
      by (auto simp: half_close_and_drain_cases Let_def split: sum.splits)
  qed
next
  show "\<forall>t1. exec_command_internal E command cs b t = (Inr (), t1) \<and> stdin = None
             \<longrightarrow> (\<exists>rest. trace t' = trace t1 @ StdinFlush # rest)"
  proof (intro allI impI, elim conjE)
    fix t1
    assume run: "exec_command_internal E command cs b t = (Inr (), t1)" and "stdin = None"
    with exec_command_wait_no_stdin [OF run] assms
    have "half_close_and_drain E t1 = (r, t')" by simp
    then show "\<exists>rest. trace t' = trace t1 @ StdinFlush # rest"
      by (auto simp: half_close_and_drain_cases split: sum.splits)
  qed
qed

theorem exec_command_wait_half_close_witness:
  "exec_command_internal example_env ''echo hello'' False (- 1) open_transport
     = (Inr (), snd (exec_command_internal example_env ''echo hello'' False (- 1) open_transport))
   \<and> (\<exists>rest. trace (snd (exec_command_wait example_env ''echo hello'' None False (- 1)
                           open_transport))
          = trace (snd (exec_command_internal example_env ''echo hello'' False (- 1)
                          open_transport)) @ StdinFlush # rest)
   \<and> stdin_lines (Some (StdinString ''abc'')) = Some [''abc'']
   \<and> (\<exists>after. trace (snd (exec_command_wait example_env ''echo hello''
                             (Some (StdinString ''abc'')) False (- 1) open_transport))
          = trace (snd (exec_command_internal example_env ''echo hello'' False (- 1)
                          open_transport))
            @ [StdinWrite ''abc'', StdinFlush, ShutdownWrite, StreamRead Stdout None] @ after)"
proof -
  let ?t1 = "snd (exec_command_internal example_env ''echo hello'' False (- 1) open_transport)"
  have internal: "exec_command_internal example_env ''echo hello'' False (- 1) open_transport
     = (Inr (), ?t1)"
    by (simp add: example_exec_command_internal)
  have pair: "exec_command_wait example_env ''echo hello'' stdin False (- 1) open_transport
     = (fst (exec_command_wait example_env ''echo hello'' stdin False (- 1) open_transport),
        snd (exec_command_wait example_env ''echo hello'' stdin False (- 1) open_transport))"
    for stdin by simp
  have first: "\<exists>rest. trace (snd (exec_command_wait example_env ''echo hello'' None False (- 1)
                           open_transport)) = trace ?t1 @ StdinFlush # rest"
    by (rule exec_command_wait_half_close [OF pair [of None], THEN conjunct2, THEN conjunct2,
          rule_format, of ?t1])
       (intro conjI internal refl)
  have lines: "stdin_lines (Some (StdinString ''abc'')) = Some [''abc'']"
    by (simp add: stdin_lines_def)
  have hyps: "writes_accepted example_env (trace ?t1) [''abc'']"
    by (rule writes_accepted_example)
  have replies: "flush_reply example_env = (\<lambda>h. Inr ())"
    "shutdown_write_reply example_env = (\<lambda>h. Inr ())"
    by (simp_all add: example_env_def)
  have "(let h = trace ?t1 @ map StdinWrite [''abc''] in
                case flush_reply example_env h of
                  Inl e \<Rightarrow> fst (exec_command_wait example_env ''echo hello''
                             (Some (StdinString ''abc'')) False (- 1) open_transport) = Inl e
                     \<and> trace (snd (exec_command_wait example_env ''echo hello''
                             (Some (StdinString ''abc'')) False (- 1) open_transport))
                        = h @ [StdinFlush]
                | Inr u \<Rightarrow>
               (case shutdown_write_reply example_env (h @ [StdinFlush]) of
                  Inl e \<Rightarrow> fst (exec_command_wait example_env ''echo hello''
                             (Some (StdinString ''abc'')) False (- 1) open_transport) = Inl e
                     \<and> trace (snd (exec_command_wait example_env ''echo hello''
                             (Some (StdinString ''abc'')) False (- 1) open_transport))
                        = h @ [StdinFlush, ShutdownWrite]
                | Inr u \<Rightarrow>
                    (\<exists>after. trace (snd (exec_command_wait example_env ''echo hello''
                             (Some (StdinString ''abc'')) False (- 1) open_transport))
                        = h @ [StdinFlush, ShutdownWrite, StreamRead Stdout None] @ after)))"
    by (rule exec_command_wait_half_close [OF pair [of "Some (StdinString ''abc'')"],
          THEN conjunct2, THEN conjunct1, rule_format, of ?t1 "[''abc'']"])
       (intro conjI internal lines hyps)
  then have second: "\<exists>after. trace (snd (exec_command_wait example_env ''echo hello''
                             (Some (StdinString ''abc'')) False (- 1) open_transport))
          = trace ?t1 @ [StdinWrite ''abc'', StdinFlush, ShutdownWrite, StreamRead Stdout None]
            @ after"
    by (simp add: replies Let_def)
  from internal first lines second show ?thesis by blast
qed

text \<open>
  The claim as it was stated has the flush and the half-close on every invocation. On
  the example host, with a \<^verbatim>\<open>stdin\<close> argument that has no \<^verbatim>\<open>readlines\<close>, the command
  \<^verbatim>\<open>sort\<close> is issued and the method leaves without a flush and without a half-close.
\<close>

theorem wrong_stdin_never_half_closed:
  "ExecCommand (''cd '' @ [CHR 0x27] @ ''/home/user'' @ [CHR 0x27] @ '' && sort'')
     \<in> set (trace (snd (exec_command_wait example_env ''sort'' (Some StdinOther) False (- 1)
                          open_transport)))
   \<and> filter closes_stdin
       (trace (snd (exec_command_wait example_env ''sort'' (Some StdinOther) False (- 1)
                      open_transport))) = []"
  by (simp add: exec_command_wait_invalid [OF example_exec_command_internal])
     (simp add: open_transport_def quote_for_bash_def)

section \<open>The command that is issued\<close>

text \<open>
  Claim C2, as amended. Whenever \<^verbatim>\<open>_exec_command_internal\<close> gets as far as returning,
  it has issued exactly one command on the channel, between \<^verbatim>\<open>set_combine_stderr\<close> and
  the three \<^verbatim>\<open>makefile\<close> calls: when the working directory holds a path \<open>f\<close>, the text
  \<^verbatim>\<open>cd\<close>, the escaped \<open>f\<close>, \<^verbatim>\<open>&&\<close> and the command exactly as the caller gave it; when
  the working directory is unset, the command as the caller gave it. Only the path goes
  through \<open>escape_for_bash\<close>.
\<close>

theorem exec_command_internal_issued_command:
  assumes "exec_command_internal E command cs b t = (Inr u, t')"
  shows "trace t' = trace t @
           [OpenSession, SetCombineStderr cs,
            ExecCommand (case cwd t of
                           None \<Rightarrow> command
                         | Some f \<Rightarrow> ''cd '' @ escape_for_bash E f @ '' && '' @ command),
            MakefileStdin b, MakefileStdout b, MakefileStderr b]"
  using exec_command_internal_Inr(2) [OF assms] by (simp add: issued_command_def)

theorem exec_command_internal_issued_command_witness:
  "exec_command_internal example_env ''ls -l'' False (- 1) open_transport
     = (Inr (), snd (exec_command_internal example_env ''ls -l'' False (- 1) open_transport))
   \<and> trace (snd (exec_command_internal example_env ''ls -l'' False (- 1) open_transport))
       = trace open_transport @
           [OpenSession, SetCombineStderr False,
            ExecCommand (''cd '' @ [CHR 0x27] @ ''/home/user'' @ [CHR 0x27] @ '' && ls -l''),
            MakefileStdin (- 1), MakefileStdout (- 1), MakefileStderr (- 1)]
   \<and> exec_command_internal example_env ''ls -l'' False (- 1) (open_transport\<lparr>cwd := None\<rparr>)
     = (Inr (), snd (exec_command_internal example_env ''ls -l'' False (- 1)
                       (open_transport\<lparr>cwd := None\<rparr>)))
   \<and> trace (snd (exec_command_internal example_env ''ls -l'' False (- 1)
                    (open_transport\<lparr>cwd := None\<rparr>)))
       = trace open_transport @
           [OpenSession, SetCombineStderr False, ExecCommand ''ls -l'',
            MakefileStdin (- 1), MakefileStdout (- 1), MakefileStderr (- 1)]"
proof -
  have run: "exec_command_internal example_env ''ls -l'' False (- 1) open_transport
     = (Inr (), snd (exec_command_internal example_env ''ls -l'' False (- 1) open_transport))"
    by (simp add: example_exec_command_internal)
  have run': "exec_command_internal example_env ''ls -l'' False (- 1) (open_transport\<lparr>cwd := None\<rparr>)
     = (Inr (), snd (exec_command_internal example_env ''ls -l'' False (- 1)
                       (open_transport\<lparr>cwd := None\<rparr>)))"
    by (simp add: exec_command_internal_open issued_command_def open_transport_def
        example_env_def)
  have esc: "escape_for_bash example_env ''/home/user'' = [CHR 0x27] @ ''/home/user'' @ [CHR 0x27]"
    by (simp add: example_env_def quote_for_bash_def)
  have dir: "cwd open_transport = Some ''/home/user''"
    by (simp add: open_transport_def)
  from exec_command_internal_issued_command [OF run]
       exec_command_internal_issued_command [OF run']
  show ?thesis using run run' esc dir by simp
qed

text \<open>
  The claim as it was stated has the command escaped as well. On the example host, in
  \<^verbatim>\<open>/home/user\<close>, the command \<^verbatim>\<open>ls -l\<close> goes out as \<^verbatim>\<open>cd '/home/user' && ls -l\<close>, which is
  not the composition of the two escaped texts.
\<close>

theorem issued_command_not_escaped:
  "ExecCommand (''cd '' @ [CHR 0x27] @ ''/home/user'' @ [CHR 0x27] @ '' && ls -l'')
     \<in> set (trace (snd (exec_command_internal example_env ''ls -l'' False (- 1) open_transport)))
   \<and> ExecCommand (''cd '' @ escape_for_bash example_env ''/home/user'' @ '' && ''
                    @ escape_for_bash example_env ''ls -l'')
     \<notin> set (trace (snd (exec_command_internal example_env ''ls -l'' False (- 1) open_transport)))"
  by (simp add: example_exec_command_internal)
     (simp add: open_transport_def example_env_def quote_for_bash_def)

section \<open>A \<^verbatim>\<open>stdin\<close> argument of the wrong kind\<close>

text \<open>
  Claim C4, as amended. With a \<^verbatim>\<open>stdin\<close> argument that is neither \<^verbatim>\<open>None\<close>, nor a
  string, nor an object with \<^verbatim>\<open>readlines\<close>, on an open transport whose channel opens and
  accepts the command, \<^verbatim>\<open>exec_command_wait\<close> raises \<^verbatim>\<open>ValueError\<close> after it has opened
  the channel, issued the command and made the three stream objects, and before
  anything is written to the input stream, before the flush and the half-close and
  before any read.
\<close>

theorem exec_command_wait_invalid_stdin:
  assumes "is_open t"
      and "open_session_reply E (trace t) = Inr ()"
      and "exec_command_reply E (trace t @ [OpenSession, SetCombineStderr cs])
             (issued_command E t command) = Inr ()"
  shows "exec_command_wait E command (Some StdinOther) cs b t =
           (Inl (ValueError ''stdin can only be either a string of a file-like object!''),
            t\<lparr>trace := trace t @ [OpenSession, SetCombineStderr cs,
                                  ExecCommand (issued_command E t command),
                                  MakefileStdin b, MakefileStdout b, MakefileStderr b],
              logged := logged t @ [(DEBUG, ''Command to be executed: ''
                                      @ issued_command E t command)]\<rparr>)"
proof -
  have run: "exec_command_internal E command cs b t =
     (Inr (), t\<lparr>trace := trace t @ [OpenSession, SetCombineStderr cs,
                                  ExecCommand (issued_command E t command),
                                  MakefileStdin b, MakefileStdout b, MakefileStderr b],
              logged := logged t @ [(DEBUG, ''Command to be executed: ''
                                      @ issued_command E t command)]\<rparr>)"
    using assms by (simp add: exec_command_internal_open)
  from exec_command_wait_invalid [OF run] show ?thesis .
qed

theorem exec_command_wait_invalid_stdin_witness:
  "is_open open_transport
   \<and> open_session_reply example_env (trace open_transport) = Inr ()
   \<and> exec_command_reply example_env (trace open_transport @ [OpenSession, SetCombineStderr False])
        (issued_command example_env open_transport ''cat'') = Inr ()
   \<and> exec_command_wait example_env ''cat'' (Some StdinOther) False (- 1) open_transport =
       (Inl (ValueError ''stdin can only be either a string of a file-like object!''),
        open_transport
          \<lparr>trace := trace open_transport @ [OpenSession, SetCombineStderr False,
               ExecCommand (issued_command example_env open_transport ''cat''),
               MakefileStdin (- 1), MakefileStdout (- 1), MakefileStderr (- 1)],
           logged := logged open_transport @ [(DEBUG, ''Command to be executed: ''
               @ issued_command example_env open_transport ''cat'')]\<rparr>)"
proof -
  have a: "is_open open_transport" by (simp add: open_transport_def)
  have b: "open_session_reply example_env (trace open_transport) = Inr ()"
    by (simp add: example_env_def)
  have c: "exec_command_reply example_env (trace open_transport @ [OpenSession, SetCombineStderr False])
        (issued_command example_env open_transport ''cat'') = Inr ()"
    by (simp add: example_env_def)
  from exec_command_wait_invalid_stdin [OF a b c] a b c show ?thesis by blast
qed

text \<open>
  The claim as it was stated has the failure before any input or output on a channel.
  On the example host the session is opened and \<^verbatim>\<open>cat\<close> is issued before the
  \<^verbatim>\<open>ValueError\<close>.
\<close>

theorem invalid_stdin_after_command_issued:
  "fst (exec_command_wait example_env ''cat'' (Some StdinOther) False (- 1) open_transport)
     = Inl (ValueError ''stdin can only be either a string of a file-like object!'')
   \<and> trace (snd (exec_command_wait example_env ''cat'' (Some StdinOther) False (- 1)
                    open_transport))
     = trace open_transport @
         [OpenSession, SetCombineStderr False,
          ExecCommand (''cd '' @ [CHR 0x27] @ ''/home/user'' @ [CHR 0x27] @ '' && cat''),
          MakefileStdin (- 1), MakefileStdout (- 1), MakefileStderr (- 1)]"
proof -
  from exec_command_wait_invalid [OF example_exec_command_internal]
  show ?thesis by (simp add: quote_for_bash_def)
qed

section \<open>File system methods: auxiliary facts\<close>

lemma sftp_closed: "\<not> is_open t \<Longrightarrow> sftp t = (Inl not_open_sftp, t)"
  by (simp add: sftp_def not_open_sftp_def)

lemma sftp_open: "is_open t \<Longrightarrow> sftp t = (Inr (), t)"
  by (simp add: sftp_def)

lemma bind_sftp_closed: "\<not> is_open t \<Longrightarrow> bind sftp f t = (Inl not_open_sftp, t)"
  by (simp add: bind_def sftp_closed)

lemma bind_sftp_open: "is_open t \<Longrightarrow> bind sftp f t = f () t"
  by (simp add: bind_def sftp_open)

lemma getcwd_closed: "\<not> is_open t \<Longrightarrow> getcwd t = (Inl not_open_sftp, t)"
  by (simp add: getcwd_def bind_sftp_closed)

lemma chdir_closed: "\<not> is_open t \<Longrightarrow> chdir E path t = (Inl not_open_sftp, t)"
  by (cases path) (simp_all add: chdir_def bind_def ret_def sftp_closed)

lemma normalize_path_closed: "\<not> is_open t \<Longrightarrow> normalize_path E path t = (Inl not_open_sftp, t)"
  by (simp add: normalize_path_def bind_sftp_closed)

lemma mkdir_closed: "\<not> is_open t \<Longrightarrow> mkdir E path t = (Inl not_open_sftp, t)"
  by (simp add: mkdir_def except_IOError_def bind_sftp_closed not_open_sftp_def)

lemma rmdir_closed: "\<not> is_open t \<Longrightarrow> rmdir E path t = (Inl not_open_sftp, t)"
  by (simp add: rmdir_def bind_sftp_closed)

lemma isdir_closed:
  "\<not> is_open t \<Longrightarrow> isdir E path t = (if path = [] then Inr False else Inl not_open_sftp, t)"
  by (simp add: isdir_def except_IOError_def bind_sftp_closed not_open_sftp_def ret_def)

lemma isfile_closed:
  "\<not> is_open t \<Longrightarrow> isfile E path t = (if path = [] then Inr False else Inl not_open_sftp, t)"
  by (simp add: isfile_def except_IOError_def bind_sftp_closed not_open_sftp_def ret_def)

lemma chmod_closed:
  "\<not> is_open t \<Longrightarrow> chmod E path mode t =
     (if path = [] then Inl (IOError None ''Input path is an empty argument.'')
      else Inl not_open_sftp, t)"
  by (simp add: chmod_def bind_sftp_closed raise_def)

lemma put_closed:
  "\<not> is_open t \<Longrightarrow> put E localpath remotepath t =
     (if isabs localpath then Inl not_open_sftp
      else Inl (ValueError ''The localpath must be an absolute path''), t)"
  by (simp add: put_def bind_sftp_closed raise_def)

lemma get_closed:
  "\<not> is_open t \<Longrightarrow> get E remotepath localpath t =
     (if isabs localpath then Inl not_open_sftp
      else Inl (ValueError ''The localpath must be an absolute path''), t)"
  by (simp add: get_def bind_sftp_closed raise_def)

lemma get_attribute_closed: "\<not> is_open t \<Longrightarrow> get_attribute E path t = (Inl not_open_sftp, t)"
  by (simp add: get_attribute_def bind_sftp_closed)

lemma listdir_closed: "\<not> is_open t \<Longrightarrow> listdir E path t = (Inl not_open_sftp, t)"
  by (simp add: listdir_def bind_sftp_closed)

lemma remove_file_closed: "\<not> is_open t \<Longrightarrow> remove_file E path t = (Inl not_open_sftp, t)"
  by (simp add: remove_file_def bind_sftp_closed)

lemma exec_command_wait_closed:
  "\<not> is_open t \<Longrightarrow> exec_command_wait E command stdin cs b t = (Inl not_open_ssh, t)"
  by (simp add: exec_command_wait_raises exec_command_internal_closed)

lemma copy_closed:
  "\<not> is_open t \<Longrightarrow> copy E remotesource remotedestination dereference t =
     (if remotesource = []
      then Inl (ValueError (''Input to copy() must be a non empty string. ''
                  @ ''Found instead '' @ remotesource @ '' as remotesource''))
      else if remotedestination = []
      then Inl (ValueError (''Input to copy() must be a non empty string. ''
                  @ ''Found instead '' @ remotedestination @ '' as remotedestination''))
      else Inl not_open_ssh, t)"
  by (simp add: copy_def Let_def raise_def bind_def exec_command_wait_closed)

lemma init_not_open: "\<not> is_open (snd (init mach kwargs))"
  by (simp add: init_def Let_def split: prod.splits)

lemma exit_transport_not_open: "exit_transport t = (Inr u, t') \<Longrightarrow> \<not> is_open t'"
  by (auto simp: exit_transport_def bind_def call_def split: if_splits)

lemma mkdir_open:
  "is_open t \<Longrightarrow> mkdir E path t =
     (case mkdir_reply E (trace t) path of
        Inl e \<Rightarrow> (case e of IOError n msg \<Rightarrow> Inl (OSError msg) | _ \<Rightarrow> Inl e)
      | Inr u \<Rightarrow> Inr (),
      t\<lparr>trace := trace t @ [SftpMkdir path]\<rparr>)"
  by (simp add: mkdir_def except_IOError_def bind_sftp_open call_def raise_def
      split: sum.splits exn.splits)




section \<open>Changing the working directory\<close>

lemma chdir_read_check_fails:
  assumes "is_open t"
      and "chdir_reply E (trace t) p = Inr d"
      and "stat_reply E (trace t @ [SftpChdir p]) ''.'' = Inl e"
  shows "chdir E (Some p) t =
           (Inl e, t\<lparr>trace := trace t @ [SftpChdir p, SftpStat ''.''], cwd := Some d\<rparr>)"
  using assms
  by (simp add: chdir_def bind_def sftp_def sftp_chdir_def call_def ret_def)

lemma chdir_refused:
  assumes "is_open t"
      and "chdir_reply E (trace t) p = Inl e"
  shows "chdir E (Some p) t = (Inl e, t\<lparr>trace := trace t @ [SftpChdir p]\<rparr>)"
  using assms
  by (simp add: chdir_def bind_def sftp_def sftp_chdir_def call_def ret_def)

text \<open>
  Claim C3. \<^verbatim>\<open>chdir\<close> checks that the path is a readable directory before it commits
  the change; when the check of the read permission fails, the working directory after
  the call is the one before the call.

  The method does otherwise: paramiko's \<^verbatim>\<open>chdir\<close> stores the new directory first, the
  stat of \<^verbatim>\<open>.\<close> comes second, and nothing restores the old directory when that stat
  fails. On the host where \<^verbatim>\<open>/secret\<close> cannot be read, a transport in \<^verbatim>\<open>/home/user\<close>
  that is asked to change to \<^verbatim>\<open>/secret\<close> raises the \<^verbatim>\<open>IOError\<close> with errno 13 and is
  left in \<^verbatim>\<open>/secret\<close>.
\<close>

theorem chdir_unreadable_keeps_new_directory:
  "cwd open_transport = Some ''/home/user''
   \<and> fst (chdir unreadable_env (Some ''/secret'') open_transport) = Inl (IOError (Some 13) [])
   \<and> cwd (snd (chdir unreadable_env (Some ''/secret'') open_transport)) = Some ''/secret''"
proof -
  have a: "is_open open_transport" by (simp add: open_transport_def)
  have b: "chdir_reply unreadable_env (trace open_transport) ''/secret'' = Inr ''/secret''"
    by (simp add: unreadable_env_def example_env_def)
  have c: "stat_reply unreadable_env (trace open_transport @ [SftpChdir ''/secret'']) ''.''
             = Inl (IOError (Some 13) [])"
    by (simp add: unreadable_env_def example_env_def)
  show ?thesis
    by (simp add: chdir_read_check_fails [OF a b c]) (simp add: open_transport_def)
qed

section \<open>Creating a directory\<close>

text \<open>
  Claim C5, as amended. On an open transport \<^verbatim>\<open>mkdir\<close> makes one request; when it
  succeeds, so does the method; when it fails with an \<^verbatim>\<open>IOError\<close>, whatever its errno,
  the method raises \<^verbatim>\<open>OSError\<close> with the message of that \<^verbatim>\<open>IOError\<close>; when it fails with
  any other exception, the method raises that exception. The kind of the error does not
  tell an existing target from another failure of the request.
\<close>

theorem mkdir_failures:
  assumes "is_open t"
  shows "(mkdir_reply E (trace t) path = Inr ()
            \<longrightarrow> mkdir E path t = (Inr (), t\<lparr>trace := trace t @ [SftpMkdir path]\<rparr>))
       \<and> (\<forall>n msg. mkdir_reply E (trace t) path = Inl (IOError n msg)
            \<longrightarrow> mkdir E path t = (Inl (OSError msg), t\<lparr>trace := trace t @ [SftpMkdir path]\<rparr>))
       \<and> (\<forall>e. mkdir_reply E (trace t) path = Inl e \<and> \<not> is_IOError e
            \<longrightarrow> mkdir E path t = (Inl e, t\<lparr>trace := trace t @ [SftpMkdir path]\<rparr>))"
proof (intro conjI allI impI)
  assume "mkdir_reply E (trace t) path = Inr ()"
  then show "mkdir E path t = (Inr (), t\<lparr>trace := trace t @ [SftpMkdir path]\<rparr>)"
    using assms by (simp add: mkdir_open)
next
  fix n msg
  assume "mkdir_reply E (trace t) path = Inl (IOError n msg)"
  then show "mkdir E path t = (Inl (OSError msg), t\<lparr>trace := trace t @ [SftpMkdir path]\<rparr>)"
    using assms by (simp add: mkdir_open)
next
  fix e
  assume "mkdir_reply E (trace t) path = Inl e \<and> \<not> is_IOError e"
  then show "mkdir E path t = (Inl e, t\<lparr>trace := trace t @ [SftpMkdir path]\<rparr>)"
    using assms by (cases e) (simp_all add: mkdir_open)
qed

theorem mkdir_failures_witness:
  "is_open open_transport
   \<and> mkdir_reply existing_env (trace open_transport) ''/home/user'' = Inl (IOError None ''Failure'')
   \<and> mkdir existing_env ''/home/user'' open_transport
       = (Inl (OSError ''Failure''),
          open_transport\<lparr>trace := trace open_transport @ [SftpMkdir ''/home/user'']\<rparr>)
   \<and> mkdir_reply example_env (trace open_transport) ''/home/user/new'' = Inr ()
   \<and> mkdir example_env ''/home/user/new'' open_transport
       = (Inr (), open_transport\<lparr>trace := trace open_transport @ [SftpMkdir ''/home/user/new'']\<rparr>)"
proof -
  have a: "is_open open_transport" by (simp add: open_transport_def)
  have b: "mkdir_reply existing_env (trace open_transport) ''/home/user'' = Inl (IOError None ''Failure'')"
    by (simp add: existing_env_def example_env_def)
  have c: "mkdir_reply example_env (trace open_transport) ''/home/user/new'' = Inr ()"
    by (simp add: example_env_def)
  from mkdir_failures [OF a, of existing_env "''/home/user''"]
       mkdir_failures [OF a, of example_env "''/home/user/new''"] a b c
  show ?thesis by blast
qed

text \<open>
  The claim as it was stated has \<^verbatim>\<open>mkdir\<close> fail with the error for an existing target
  exactly when the target exists, and every other failure come out as an \<^verbatim>\<open>IOError\<close>.
  On the host where \<^verbatim>\<open>/root/new\<close> does not exist and may not be created, the refusal
  (an \<^verbatim>\<open>IOError\<close> with errno 13) comes out as an \<^verbatim>\<open>OSError\<close>, the error that an existing
  target gives.
\<close>

theorem mkdir_permission_denied_is_OSError:
  "stat_reply denied_env (trace open_transport) ''/root/new'' = Inl (IOError (Some 2) [])
   \<and> mkdir_reply denied_env (trace open_transport) ''/root/new'' = Inl (IOError (Some 13) [])
   \<and> fst (mkdir denied_env ''/root/new'' open_transport) = Inl (OSError [])
   \<and> fst (mkdir existing_env ''/home/user'' open_transport) = Inl (OSError ''Failure'')"
proof -
  have a: "is_open open_transport" by (simp add: open_transport_def)
  show ?thesis
    by (simp add: mkdir_open [OF a]) (simp add: denied_env_def existing_env_def example_env_def)
qed

section \<open>A transport that is not open\<close>

text \<open>
  Claim C6, as amended. On a transport that is not open (never entered, or left through
  \<^verbatim>\<open>__exit__\<close>) no method calls the library: the state, and with it the trace, is the
  same after the call. Each method raises \<^verbatim>\<open>TransportInternalError\<close>, except where a
  check of the arguments comes before the first use of \<^verbatim>\<open>self.sftp\<close> or
  \<^verbatim>\<open>self.sshclient\<close>: \<^verbatim>\<open>isdir\<close> and \<^verbatim>\<open>isfile\<close> of the empty path return \<^verbatim>\<open>False\<close>,
  \<^verbatim>\<open>chmod\<close> of the empty path raises \<^verbatim>\<open>IOError\<close>, \<^verbatim>\<open>put\<close> and \<^verbatim>\<open>get\<close> with a relative
  local path raise \<^verbatim>\<open>ValueError\<close>, and \<^verbatim>\<open>copy\<close> with an empty source or destination
  raises \<^verbatim>\<open>ValueError\<close>. A transport is not open after \<^verbatim>\<open>__init__\<close>, nor after an
  \<^verbatim>\<open>__exit__\<close> that returned.
\<close>

theorem closed_transport_operations:
  assumes "\<not> is_open t"
  shows "getcwd t = (Inl not_open_sftp, t)
       \<and> chdir E dir t = (Inl not_open_sftp, t)
       \<and> normalize_path E path t = (Inl not_open_sftp, t)
       \<and> mkdir E path t = (Inl not_open_sftp, t)
       \<and> rmdir E path t = (Inl not_open_sftp, t)
       \<and> listdir E path t = (Inl not_open_sftp, t)
       \<and> remove_file E path t = (Inl not_open_sftp, t)
       \<and> get_attribute E path t = (Inl not_open_sftp, t)
       \<and> isdir E path t = (if path = [] then Inr False else Inl not_open_sftp, t)
       \<and> isfile E path t = (if path = [] then Inr False else Inl not_open_sftp, t)
       \<and> chmod E path mode t =
           (if path = [] then Inl (IOError None ''Input path is an empty argument.'')
            else Inl not_open_sftp, t)
       \<and> put E localpath remotepath t =
           (if isabs localpath then Inl not_open_sftp
            else Inl (ValueError ''The localpath must be an absolute path''), t)
       \<and> get E remotepath localpath t =
           (if isabs localpath then Inl not_open_sftp
            else Inl (ValueError ''The localpath must be an absolute path''), t)
       \<and> exec_command_internal E command cs b t = (Inl not_open_ssh, t)
       \<and> exec_command_wait E command stdin cs b t = (Inl not_open_ssh, t)
       \<and> copy E remotesource remotedestination dereference t =
           (if remotesource = []
            then Inl (ValueError (''Input to copy() must be a non empty string. ''
                        @ ''Found instead '' @ remotesource @ '' as remotesource''))
            else if remotedestination = []
            then Inl (ValueError (''Input to copy() must be a non empty string. ''
                        @ ''Found instead '' @ remotedestination @ '' as remotedestination''))
            else Inl not_open_ssh, t)
       \<and> \<not> is_open (snd (init mach kwargs))
       \<and> (\<forall>t0 t1. exit_transport t0 = (Inr (), t1) \<longrightarrow> \<not> is_open t1)"
proof -
  have "\<forall>t0 t1. exit_transport t0 = (Inr (), t1) \<longrightarrow> \<not> is_open t1"
    using exit_transport_not_open by blast
  then show ?thesis
    using assms
    by (simp only: getcwd_closed chdir_closed normalize_path_closed mkdir_closed rmdir_closed
        listdir_closed remove_file_closed get_attribute_closed isdir_closed isfile_closed
        chmod_closed put_closed get_closed exec_command_internal_closed
        exec_command_wait_closed copy_closed init_not_open not_False_eq_True simp_thms)
qed

theorem closed_transport_operations_witness:
  "\<not> is_open fresh_transport
   \<and> listdir example_env ''.'' fresh_transport = (Inl not_open_sftp, fresh_transport)
   \<and> exec_command_internal example_env ''ls'' False (- 1) fresh_transport
       = (Inl not_open_ssh, fresh_transport)
   \<and> isdir example_env ''/home'' fresh_transport = (Inl not_open_sftp, fresh_transport)
   \<and> copy example_env ''a'' ''b'' False fresh_transport = (Inl not_open_ssh, fresh_transport)"
proof -
  have a: "\<not> is_open fresh_transport" by (simp add: fresh_transport_def)
  from closed_transport_operations [OF a, where E = example_env and path = "''.''"
         and command = "''ls''" and cs = False and b = "- 1"]
       closed_transport_operations [OF a, where E = example_env and path = "''/home''"
         and remotesource = "''a''" and remotedestination = "''b''" and dereference = False]
  show ?thesis using a by simp
qed

text \<open>
  The claim as it was stated has every file system method raise the error on a transport
  that is not open. On a transport that was never entered, \<^verbatim>\<open>isdir\<close> and \<^verbatim>\<open>isfile\<close> of
  the empty path return \<^verbatim>\<open>False\<close>, and \<^verbatim>\<open>chmod\<close> of the empty path and \<^verbatim>\<open>put\<close> of a
  relative local path raise errors of other kinds.
\<close>

theorem closed_transport_without_error:
  "\<not> is_open fresh_transport
   \<and> isdir example_env [] fresh_transport = (Inr False, fresh_transport)
   \<and> isfile example_env [] fresh_transport = (Inr False, fresh_transport)
   \<and> chmod example_env [] 493 fresh_transport
       = (Inl (IOError None ''Input path is an empty argument.''), fresh_transport)
   \<and> put example_env ''a.txt'' ''b.txt'' fresh_transport
       = (Inl (ValueError ''The localpath must be an absolute path''), fresh_transport)"
  by (simp add: isdir_def isfile_def chmod_def put_def isabs_def ret_def raise_def
      fresh_transport_def)

section \<open>Existence checks\<close>



section \<open>Remote copy\<close>

lemma copy_command:
  "remotesource \<noteq> [] \<Longrightarrow> remotedestination \<noteq> [] \<Longrightarrow>
   copy E remotesource remotedestination dereference t =
     (case exec_command_wait E
             (''cp '' @ (if dereference then ''-r -f -L'' else ''-r -f'') @ '' ''
              @ escape_for_bash E remotesource @ '' '' @ escape_for_bash E remotedestination)
             None False (- 1) t of
        (Inl e, t1) \<Rightarrow> (Inl e, t1)
      | (Inr (retval, out, err), t1) \<Rightarrow>
          (if retval = 0
           then (Inr True,
                 if strip err \<noteq> []
                 then t1\<lparr>logged := logged t1
                        @ [(WARNING, ''There was nonempty stderr in the cp command: '' @ err)]\<rparr>
                 else t1)
           else (Inl (IOError None (''Error while executing cp. Exit code: '' @ str_int retval)),
                 t1\<lparr>logged := logged t1
                   @ [(ERROR, ''Problem executing cp. Exit code: '' @ str_int retval
                        @ '', stdout: '' @ [CHR 0x27] @ out @ [CHR 0x27]
                        @ '', stderr: '' @ [CHR 0x27] @ err @ [CHR 0x27])]\<rparr>)))"
  by (simp add: copy_def Let_def bind_def ret_def raise_def log_record_def
      split: prod.splits sum.splits)

lemma str_int_1: "str_int 1 = ''1''"
  by (simp add: str_int_def str_nat.simps)

text \<open>
  Claim C8, as amended. With a source and a destination that are not empty, \<^verbatim>\<open>copy\<close>
  runs one \<^verbatim>\<open>cp\<close> command through \<^verbatim>\<open>exec_command_wait\<close>. When that call returns with
  exit status 0, \<^verbatim>\<open>copy\<close> returns \<^verbatim>\<open>True\<close>, and a standard error that is not blank is
  logged as a warning and nothing more. When it returns with another exit status,
  \<^verbatim>\<open>copy\<close> raises an \<^verbatim>\<open>IOError\<close> whose message holds the exit status and nothing else;
  the exit status, the standard output and the standard error go to the log, as one
  error record. When the call raises, \<^verbatim>\<open>copy\<close> raises the same exception.
\<close>

theorem copy_outcome:
  assumes "remotesource \<noteq> []" and "remotedestination \<noteq> []"
      and "exec_command_wait E
             (''cp '' @ (if dereference then ''-r -f -L'' else ''-r -f'') @ '' ''
              @ escape_for_bash E remotesource @ '' '' @ escape_for_bash E remotedestination)
             None False (- 1) t = (r, t1)"
  shows "copy E remotesource remotedestination dereference t =
     (case r of
        Inl e \<Rightarrow> (Inl e, t1)
      | Inr (retval, out, err) \<Rightarrow>
          (if retval = 0
           then (Inr True,
                 if strip err \<noteq> []
                 then t1\<lparr>logged := logged t1
                        @ [(WARNING, ''There was nonempty stderr in the cp command: '' @ err)]\<rparr>
                 else t1)
           else (Inl (IOError None (''Error while executing cp. Exit code: '' @ str_int retval)),
                 t1\<lparr>logged := logged t1
                   @ [(ERROR, ''Problem executing cp. Exit code: '' @ str_int retval
                        @ '', stdout: '' @ [CHR 0x27] @ out @ [CHR 0x27]
                        @ '', stderr: '' @ [CHR 0x27] @ err @ [CHR 0x27])]\<rparr>)))"
  using assms by (simp add: copy_command split: sum.splits)

theorem copy_outcome_witness:
  "exec_command_wait warning_cp_env
      (''cp '' @ (if True then ''-r -f -L'' else ''-r -f'') @ '' ''
       @ escape_for_bash warning_cp_env ''a'' @ '' '' @ escape_for_bash warning_cp_env ''b'')
      None False (- 1) open_transport
     = (Inr (0, ''hello'' @ [CHR 0x0A], ''cp: warning''),
        snd (exec_command_wait warning_cp_env
               (''cp '' @ (if True then ''-r -f -L'' else ''-r -f'') @ '' ''
                @ escape_for_bash warning_cp_env ''a'' @ '' '' @ escape_for_bash warning_cp_env ''b'')
               None False (- 1) open_transport))
   \<and> fst (copy warning_cp_env ''a'' ''b'' True open_transport) = Inr True
   \<and> last (logged (snd (copy warning_cp_env ''a'' ''b'' True open_transport)))
       = (WARNING, ''There was nonempty stderr in the cp command: cp: warning'')
   \<and> exec_command_wait failing_cp_env
      (''cp '' @ (if False then ''-r -f -L'' else ''-r -f'') @ '' ''
       @ escape_for_bash failing_cp_env ''a'' @ '' '' @ escape_for_bash failing_cp_env ''b'')
      None False (- 1) open_transport
     = (Inr (1, [], ''cp: cannot stat a: No such file or directory''),
        snd (exec_command_wait failing_cp_env
               (''cp '' @ (if False then ''-r -f -L'' else ''-r -f'') @ '' ''
                @ escape_for_bash failing_cp_env ''a'' @ '' '' @ escape_for_bash failing_cp_env ''b'')
               None False (- 1) open_transport))
   \<and> fst (copy failing_cp_env ''a'' ''b'' False open_transport)
       = Inl (IOError None ''Error while executing cp. Exit code: 1'')
   \<and> last (logged (snd (copy failing_cp_env ''a'' ''b'' False open_transport)))
       = (ERROR, ''Problem executing cp. Exit code: 1, stdout: '' @ [CHR 0x27] @ [CHR 0x27]
                 @ '', stderr: '' @ [CHR 0x27] @ ''cp: cannot stat a: No such file or directory''
                 @ [CHR 0x27])"
proof -
  have a: "is_open open_transport" by (simp add: open_transport_def)
  have w: "exec_command_internal warning_cp_env command False (- 1) open_transport
     = (Inr (), snd (exec_command_internal warning_cp_env command False (- 1) open_transport))"
    for command
    by (simp add: exec_command_internal_open [OF a])
       (simp add: warning_cp_env_def example_env_def)
  have f: "exec_command_internal failing_cp_env command False (- 1) open_transport
     = (Inr (), snd (exec_command_internal failing_cp_env command False (- 1) open_transport))"
    for command
    by (simp add: exec_command_internal_open [OF a])
       (simp add: failing_cp_env_def example_env_def)
  have rw: "flush_reply warning_cp_env = (\<lambda>h. Inr ())"
           "shutdown_write_reply warning_cp_env = (\<lambda>h. Inr ())"
           "stdout_reply warning_cp_env = (\<lambda>h. Inr (''hello'' @ [CHR 0x0A]))"
           "exit_status_reply warning_cp_env = (\<lambda>h. Inr 0)"
           "stderr_reply warning_cp_env = (\<lambda>h. Inr ''cp: warning'')"
    and rf: "flush_reply failing_cp_env = (\<lambda>h. Inr ())"
           "shutdown_write_reply failing_cp_env = (\<lambda>h. Inr ())"
           "stdout_reply failing_cp_env = (\<lambda>h. Inr [])"
           "exit_status_reply failing_cp_env = (\<lambda>h. Inr 1)"
           "stderr_reply failing_cp_env
              = (\<lambda>h. Inr ''cp: cannot stat a: No such file or directory'')"
    by (simp_all add: warning_cp_env_def failing_cp_env_def example_env_def)
  have runw: "exec_command_wait warning_cp_env
      (''cp '' @ (if True then ''-r -f -L'' else ''-r -f'') @ '' ''
       @ escape_for_bash warning_cp_env ''a'' @ '' '' @ escape_for_bash warning_cp_env ''b'')
      None False (- 1) open_transport
     = (Inr (0, ''hello'' @ [CHR 0x0A], ''cp: warning''),
        snd (exec_command_wait warning_cp_env
               (''cp '' @ (if True then ''-r -f -L'' else ''-r -f'') @ '' ''
                @ escape_for_bash warning_cp_env ''a'' @ '' '' @ escape_for_bash warning_cp_env ''b'')
               None False (- 1) open_transport))"
    by (simp add: exec_command_wait_no_stdin [OF w] half_close_and_drain_cases rw)
  have runf: "exec_command_wait failing_cp_env
      (''cp '' @ (if False then ''-r -f -L'' else ''-r -f'') @ '' ''
       @ escape_for_bash failing_cp_env ''a'' @ '' '' @ escape_for_bash failing_cp_env ''b'')
      None False (- 1) open_transport
     = (Inr (1, [], ''cp: cannot stat a: No such file or directory''),
        snd (exec_command_wait failing_cp_env
               (''cp '' @ (if False then ''-r -f -L'' else ''-r -f'') @ '' ''
                @ escape_for_bash failing_cp_env ''a'' @ '' '' @ escape_for_bash failing_cp_env ''b'')
               None False (- 1) open_transport))"
    by (simp add: exec_command_wait_no_stdin [OF f] half_close_and_drain_cases rf)
  have sp: "strip ''cp: warning'' \<noteq> []"
    by (simp add: strip_def is_space_def)
  have ne: "''a'' \<noteq> []" "''b'' \<noteq> []" by simp_all
  have cw: "copy warning_cp_env ''a'' ''b'' True open_transport =
      (Inr True, (snd (exec_command_wait warning_cp_env
               (''cp '' @ (if True then ''-r -f -L'' else ''-r -f'') @ '' ''
                @ escape_for_bash warning_cp_env ''a'' @ '' '' @ escape_for_bash warning_cp_env ''b'')
               None False (- 1) open_transport))
          \<lparr>logged := logged (snd (exec_command_wait warning_cp_env
               (''cp '' @ (if True then ''-r -f -L'' else ''-r -f'') @ '' ''
                @ escape_for_bash warning_cp_env ''a'' @ '' '' @ escape_for_bash warning_cp_env ''b'')
               None False (- 1) open_transport))
            @ [(WARNING, ''There was nonempty stderr in the cp command: '' @ ''cp: warning'')]\<rparr>)"
    using copy_outcome [OF ne runw] sp by simp
  have cf: "copy failing_cp_env ''a'' ''b'' False open_transport =
      (Inl (IOError None (''Error while executing cp. Exit code: '' @ str_int 1)),
       (snd (exec_command_wait failing_cp_env
               (''cp '' @ (if False then ''-r -f -L'' else ''-r -f'') @ '' ''
                @ escape_for_bash failing_cp_env ''a'' @ '' '' @ escape_for_bash failing_cp_env ''b'')
               None False (- 1) open_transport))
          \<lparr>logged := logged (snd (exec_command_wait failing_cp_env
               (''cp '' @ (if False then ''-r -f -L'' else ''-r -f'') @ '' ''
                @ escape_for_bash failing_cp_env ''a'' @ '' '' @ escape_for_bash failing_cp_env ''b'')
               None False (- 1) open_transport))
            @ [(ERROR, ''Problem executing cp. Exit code: '' @ str_int 1
                        @ '', stdout: '' @ [CHR 0x27] @ [] @ [CHR 0x27]
                        @ '', stderr: '' @ [CHR 0x27] @ ''cp: cannot stat a: No such file or directory'' @ [CHR 0x27])]\<rparr>)"
    using copy_outcome [OF ne runf] by simp
  show ?thesis
    apply (intro conjI)
         apply (rule runw)
        apply (simp add: cw)
       apply (simp add: cw)
      apply (rule runf)
     apply (simp add: cf str_int_1)
    apply (simp add: cf str_int_1)
    done
qed

text \<open>
  The claim as it was stated has the raised failure carry the exit status, the standard
  output and the standard error. On two hosts where \<^verbatim>\<open>cp\<close> exits with status 1 and
  prints different texts, \<^verbatim>\<open>copy\<close> raises one and the same \<^verbatim>\<open>IOError\<close>, which holds
  the exit status only.
\<close>

theorem copy_failure_carries_exit_code_only:
  "stderr_reply failing_cp_env [] \<noteq> stderr_reply failing_cp_env2 []
   \<and> stdout_reply failing_cp_env [] \<noteq> stdout_reply failing_cp_env2 []
   \<and> fst (copy failing_cp_env ''a'' ''b'' False open_transport)
       = Inl (IOError None ''Error while executing cp. Exit code: 1'')
   \<and> fst (copy failing_cp_env2 ''a'' ''b'' False open_transport)
       = Inl (IOError None ''Error while executing cp. Exit code: 1'')"
proof -
  have a: "is_open open_transport" by (simp add: open_transport_def)
  have f: "exec_command_internal failing_cp_env command False (- 1) open_transport
     = (Inr (), snd (exec_command_internal failing_cp_env command False (- 1) open_transport))"
    for command
    by (simp add: exec_command_internal_open [OF a])
       (simp add: failing_cp_env_def example_env_def)
  have f2: "exec_command_internal failing_cp_env2 command False (- 1) open_transport
     = (Inr (), snd (exec_command_internal failing_cp_env2 command False (- 1) open_transport))"
    for command
    by (simp add: exec_command_internal_open [OF a])
       (simp add: failing_cp_env2_def example_env_def)
  have e1: "flush_reply failing_cp_env = (\<lambda>h. Inr ())"
           "shutdown_write_reply failing_cp_env = (\<lambda>h. Inr ())"
           "stdout_reply failing_cp_env = (\<lambda>h. Inr [])"
           "exit_status_reply failing_cp_env = (\<lambda>h. Inr 1)"
           "stderr_reply failing_cp_env
              = (\<lambda>h. Inr ''cp: cannot stat a: No such file or directory'')"
    and e2: "flush_reply failing_cp_env2 = (\<lambda>h. Inr ())"
           "shutdown_write_reply failing_cp_env2 = (\<lambda>h. Inr ())"
           "stdout_reply failing_cp_env2 = (\<lambda>h. Inr ''x'')"
           "exit_status_reply failing_cp_env2 = (\<lambda>h. Inr 1)"
           "stderr_reply failing_cp_env2
              = (\<lambda>h. Inr ''cp: cannot create regular file b: Permission denied'')"
    by (simp_all add: failing_cp_env_def failing_cp_env2_def example_env_def)
  have ne: "''a'' \<noteq> []" "''b'' \<noteq> []" by simp_all
  have c1: "fst (copy failing_cp_env ''a'' ''b'' False open_transport)
       = Inl (IOError None ''Error while executing cp. Exit code: 1'')"
    by (simp add: copy_command [OF ne] exec_command_wait_no_stdin [OF f]
        half_close_and_drain_cases e1 str_int_1)
  have c2: "fst (copy failing_cp_env2 ''a'' ''b'' False open_transport)
       = Inl (IOError None ''Error while executing cp. Exit code: 1'')"
    by (simp add: copy_command [OF ne] exec_command_wait_no_stdin [OF f2]
        half_close_and_drain_cases e2 str_int_1)
  have d: "stderr_reply failing_cp_env [] \<noteq> stderr_reply failing_cp_env2 []"
          "stdout_reply failing_cp_env [] \<noteq> stdout_reply failing_cp_env2 []"
    by (simp_all add: failing_cp_env_def failing_cp_env2_def)
  from c1 c2 d show ?thesis by blast
qed

section \<open>File attributes\<close>

lemma copy_fields_valid:
  "copy_fields a valid_fields Map.empty =
     Inr [''st_size'' \<mapsto> py_int_option (st_size a),
          ''st_uid'' \<mapsto> py_int_option (st_uid a),
          ''st_gid'' \<mapsto> py_int_option (st_gid a),
          ''st_mode'' \<mapsto> py_int_option (st_mode a),
          ''st_atime'' \<mapsto> py_int_option (st_atime a),
          ''st_mtime'' \<mapsto> py_int_option (st_mtime a)]"
  by (simp add: valid_fields_def getattr_def setitem_def)

lemma get_attribute_open:
  "is_open t \<Longrightarrow> get_attribute E path t =
     (case lstat_reply E (trace t) path of
        Inl e \<Rightarrow> Inl e
      | Inr a \<Rightarrow> copy_fields a valid_fields Map.empty,
      t\<lparr>trace := trace t @ [SftpLstat path]\<rparr>)"
  by (simp add: get_attribute_def bind_def sftp_open call_def split: sum.splits)

text \<open>
  Claim C9. \<^verbatim>\<open>get_attribute\<close> returns a record with exactly the six fields \<^verbatim>\<open>st_size\<close>,
  \<^verbatim>\<open>st_uid\<close>, \<^verbatim>\<open>st_gid\<close>, \<^verbatim>\<open>st_mode\<close>, \<^verbatim>\<open>st_atime\<close>, \<^verbatim>\<open>st_mtime\<close>, copied from the
  richer answer of the \<^verbatim>\<open>lstat\<close> request, whose other fields are ignored; storing or
  reading any other field of the returned record is an error.

  On an open transport whose \<^verbatim>\<open>lstat\<close> request is answered with \<open>a\<close>, the method makes
  that one request and returns the dictionary \<open>d\<close> that holds the six fields of \<open>a\<close> under
  their names and nothing else, so \<open>d\<close> does not depend on the other fields of \<open>a\<close>;
  storing under a name outside the six, and reading one, is an error.
\<close>

theorem get_attribute_fields:
  assumes "is_open t" and "lstat_reply E (trace t) path = Inr a"
  shows "\<exists>d. get_attribute E path t = (Inr d, t\<lparr>trace := trace t @ [SftpLstat path]\<rparr>)
           \<and> d = [''st_size'' \<mapsto> py_int_option (st_size a),
                  ''st_uid'' \<mapsto> py_int_option (st_uid a),
                  ''st_gid'' \<mapsto> py_int_option (st_gid a),
                  ''st_mode'' \<mapsto> py_int_option (st_mode a),
                  ''st_atime'' \<mapsto> py_int_option (st_atime a),
                  ''st_mtime'' \<mapsto> py_int_option (st_mtime a)]
           \<and> dom d = set valid_fields
           \<and> (\<forall>key v. key \<notin> set valid_fields \<longrightarrow>
                 setitem d key v = Inl (KeyError key) \<and> getitem d key = Inl (KeyError key))"
proof -
  let ?d = "[''st_size'' \<mapsto> py_int_option (st_size a),
             ''st_uid'' \<mapsto> py_int_option (st_uid a),
             ''st_gid'' \<mapsto> py_int_option (st_gid a),
             ''st_mode'' \<mapsto> py_int_option (st_mode a),
             ''st_atime'' \<mapsto> py_int_option (st_atime a),
             ''st_mtime'' \<mapsto> py_int_option (st_mtime a)]"
  have run: "get_attribute E path t = (Inr ?d, t\<lparr>trace := trace t @ [SftpLstat path]\<rparr>)"
    using assms by (simp add: get_attribute_open copy_fields_valid)
  have dom: "dom ?d = set valid_fields"
    by (auto simp: valid_fields_def)
  have other: "setitem ?d key v = Inl (KeyError key) \<and> getitem ?d key = Inl (KeyError key)"
    if "key \<notin> set valid_fields" for key v
  proof -
    from that dom have "?d key = None" by blast
    with that show ?thesis by (simp add: setitem_def getitem_def)
  qed
  from run dom other show ?thesis by blast
qed

theorem get_attribute_fields_witness:
  "is_open open_transport
   \<and> lstat_reply example_env (trace open_transport) ''a.txt'' = Inr file_attributes
   \<and> (\<exists>d. fst (get_attribute example_env ''a.txt'' open_transport) = Inr d
        \<and> d ''st_size'' = Some (PyInt 12)
        \<and> d ''st_mode'' = Some (PyInt 33188)
        \<and> d ''filename'' = None
        \<and> getitem d ''st_uid'' = Inr (PyInt 1000)
        \<and> getitem d ''longname'' = Inl (KeyError ''longname'')
        \<and> setitem d ''attr'' (PyDict []) = Inl (KeyError ''attr''))"
proof -
  have a: "is_open open_transport" by (simp add: open_transport_def)
  have b: "lstat_reply example_env (trace open_transport) ''a.txt'' = Inr file_attributes"
    by (simp add: example_env_def example_stat_def)
  from get_attribute_fields [OF a b]
  obtain d where d: "get_attribute example_env ''a.txt'' open_transport
             = (Inr d, open_transport\<lparr>trace := trace open_transport @ [SftpLstat ''a.txt'']\<rparr>)"
    and v: "d = [''st_size'' \<mapsto> py_int_option (st_size file_attributes),
                  ''st_uid'' \<mapsto> py_int_option (st_uid file_attributes),
                  ''st_gid'' \<mapsto> py_int_option (st_gid file_attributes),
                  ''st_mode'' \<mapsto> py_int_option (st_mode file_attributes),
                  ''st_atime'' \<mapsto> py_int_option (st_atime file_attributes),
                  ''st_mtime'' \<mapsto> py_int_option (st_mtime file_attributes)]"
    by blast
  have "d ''st_size'' = Some (PyInt 12)" "d ''st_mode'' = Some (PyInt 33188)"
       "d ''filename'' = None" "getitem d ''st_uid'' = Inr (PyInt 1000)"
       "getitem d ''longname'' = Inl (KeyError ''longname'')"
       "setitem d ''attr'' (PyDict []) = Inl (KeyError ''attr'')"
    by (simp_all add: v file_attributes_def py_int_option_def getitem_def setitem_def
        valid_fields_def)
  with a b d show ?thesis by auto
qed

end
